theory Spec2Isabelle
  imports Main
begin

section \<open>JavaScript values and strings\<close>

text \<open>
  The scripts under \<^verbatim>\<open>frontend/static/js\<close> work on values decoded from JSON and on the
  values of form controls. A value is one of JavaScript's primitives, an array or a plain
  object.

  \<^item> A string is a list of code units; a \<^typ>\<open>char\<close> stands for a code unit below 256.
  \<^item> Numbers are IEEE doubles in the source. The model keeps them opaque (the type
    parameter \<open>'n\<close>); every operation that inspects or produces one (\<^verbatim>\<open>parseInt\<close>,
    \<^verbatim>\<open>parseFloat\<close>, \<^verbatim>\<open>String\<close>, truthiness, \<^verbatim>\<open>=== 0\<close>) is a parameter of the function that
    uses it.
  \<^item> An object is the list of its own properties, each name once, in the order in which
    they were created. The scripts read properties of fixed names, none of which is the
    name of a member that a plain object inherits; where a script reads a property whose
    name comes from the data (the CSV export), the inherited members are modelled there.
  \<^item> An array carries its elements and, second, the named properties that a script may
    have attached to it (\<^verbatim>\<open>arr.tech_stack = []\<close> is legal JavaScript). Arrays decoded from
    JSON have none, and the names that the scripts attach (\<^verbatim>\<open>employment_type\<close>, \<^verbatim>\<open>work_mode\<close>,
    \<^verbatim>\<open>tech_stack\<close>) hide no method of arrays.
\<close>

datatype 'n jsval =
    JUndefined
  | JNull
  | JBool bool
  | JNum 'n
  | JStr string
  | JArr "'n jsval list" "(string \<times> 'n jsval) list"
  | JObj "(string \<times> 'n jsval) list"

datatype error = TypeError

text \<open>\<^verbatim>\<open>Array.isArray(v)\<close>.\<close>

fun isArray :: "'n jsval \<Rightarrow> bool" where
  "isArray (JArr xs ps) = True"
| "isArray v = False"

text \<open>
  The test \<^verbatim>\<open>!v || typeof v !== 'object'\<close> is false exactly for objects and arrays:
  \<^verbatim>\<open>null\<close> has type \<^verbatim>\<open>'object'\<close> but is falsy, every other primitive has another type.
\<close>

fun isObjectLike :: "'n jsval \<Rightarrow> bool" where
  "isObjectLike (JArr xs ps) = True"
| "isObjectLike (JObj ps) = True"
| "isObjectLike v = False"

text \<open>
  Truthiness. \<open>nz n\<close> says that the number \<open>n\<close> is neither zero nor \<^verbatim>\<open>NaN\<close>.
\<close>

fun truthy :: "('n \<Rightarrow> bool) \<Rightarrow> 'n jsval \<Rightarrow> bool" where
  "truthy nz JUndefined = False"
| "truthy nz JNull = False"
| "truthy nz (JBool b) = b"
| "truthy nz (JNum n) = nz n"
| "truthy nz (JStr s) = (s \<noteq> [])"
| "truthy nz (JArr xs ps) = True"
| "truthy nz (JObj ps) = True"

text \<open>Reading and writing an own property of an object, by name.\<close>

definition getOwn :: "(string \<times> 'n jsval) list \<Rightarrow> string \<Rightarrow> 'n jsval" where
  "getOwn ps k = (case map_of ps k of None \<Rightarrow> JUndefined | Some v \<Rightarrow> v)"

primrec setOwn :: "(string \<times> 'n jsval) list \<Rightarrow> string \<Rightarrow> 'n jsval \<Rightarrow> (string \<times> 'n jsval) list" where
  "setOwn [] k v = [(k, v)]"
| "setOwn (p # ps) k v = (if fst p = k then (k, v) # ps else p # setOwn ps k v)"

text \<open>
  \<^verbatim>\<open>v.name\<close> and \<^verbatim>\<open>v.name = w\<close> for a name that is neither an array index nor
  \<^verbatim>\<open>length\<close>. Reading a property of \<^verbatim>\<open>null\<close> or \<^verbatim>\<open>undefined\<close> throws; a primitive has no
  own property of such a name, and in a classic (non-strict) script an assignment to a
  property of a primitive is silently dropped.
\<close>

fun getNamed :: "'n jsval \<Rightarrow> string \<Rightarrow> error + 'n jsval" where
  "getNamed JUndefined k = Inl TypeError"
| "getNamed JNull k = Inl TypeError"
| "getNamed (JObj ps) k = Inr (getOwn ps k)"
| "getNamed (JArr xs ps) k = Inr (getOwn ps k)"
| "getNamed v k = Inr JUndefined"

fun setNamed :: "'n jsval \<Rightarrow> string \<Rightarrow> 'n jsval \<Rightarrow> 'n jsval" where
  "setNamed (JObj ps) k w = JObj (setOwn ps k w)"
| "setNamed (JArr xs ps) k w = JArr xs (setOwn ps k w)"
| "setNamed v k w = v"

subsection \<open>String operations\<close>

text \<open>
  \<^verbatim>\<open>String.prototype.toLowerCase\<close> on the letters A to Z. Every other code unit is left
  as it is: the remaining upper-case letters below 256 lower-case to letters that occur in
  none of the chart type names, the only strings a lower-cased value is compared with.
\<close>

definition lowerChar :: "char \<Rightarrow> char" where
  "lowerChar c =
     (case map_of (zip ''ABCDEFGHIJKLMNOPQRSTUVWXYZ'' ''abcdefghijklmnopqrstuvwxyz'') c of
        None \<Rightarrow> c
      | Some l \<Rightarrow> l)"

definition toLowerCase :: "string \<Rightarrow> string" where
  "toLowerCase s = map lowerChar s"

text \<open>
  \<^verbatim>\<open>String.prototype.trim\<close>: white space and line terminators below 256 are TAB, LF, VT,
  FF, CR, SPACE and NO-BREAK SPACE.
\<close>

definition isSpace :: "char \<Rightarrow> bool" where
  "isSpace c \<longleftrightarrow> c \<in> set [CHR 0x09, CHR 0x0A, CHR 0x0B, CHR 0x0C, CHR 0x0D, CHR 0x20, CHR 0xA0]"

definition trim :: "string \<Rightarrow> string" where
  "trim s = rev (dropWhile isSpace (rev (dropWhile isSpace s)))"

text \<open>\<^verbatim>\<open>s.split(',')\<close>: the pieces between the separators; never an empty list.\<close>

fun split :: "char \<Rightarrow> string \<Rightarrow> string list" where
  "split sep [] = [[]]"
| "split sep (c # cs) =
     (if c = sep then [] # split sep cs
      else (case split sep cs of
              [] \<Rightarrow> [[c]]
            | w # ws \<Rightarrow> (c # w) # ws))"

text \<open>\<^verbatim>\<open>s.split(',').map(s => s.trim()).filter(s => s)\<close>\<close>

definition splitTags :: "string \<Rightarrow> string list" where
  "splitTags s = filter (\<lambda>t. t \<noteq> []) (map trim (split CHR '','' s))"

text \<open>Decimal rendering of an integer, as a template literal interpolates it.\<close>

definition digitChar :: "nat \<Rightarrow> char" where
  "digitChar d = ''0123456789'' ! d"

fun showNat :: "nat \<Rightarrow> string" where
  "showNat n = (if n < 10 then [digitChar n] else showNat (n div 10) @ [digitChar (n mod 10)])"

definition showInt :: "int \<Rightarrow> string" where
  "showInt i = (if i < 0 then CHR ''-'' # showNat (nat (- i)) else showNat (nat i))"

subsection \<open>Enumerating and reading properties by name\<close>

text \<open>
  A property name is an array index when it is the decimal numeral, without sign or
  leading zero, of a whole number below \<open>2\<^sup>3\<^sup>2 - 1\<close>.
\<close>

definition isDigit :: "char \<Rightarrow> bool" where
  "isDigit c \<longleftrightarrow> c \<in> set ''0123456789''"

definition digitsNat :: "string \<Rightarrow> nat" where
  "digitsNat s = foldl (\<lambda>n c. 10 * n + (of_char c - 48)) 0 s"

definition arrayIndex :: "string \<Rightarrow> nat option" where
  "arrayIndex s =
     (if s \<noteq> [] \<and> list_all isDigit s \<and> (if hd s = CHR ''0'' then length s = 1 else True)
         \<and> digitsNat s < 4294967295
      then Some (digitsNat s) else None)"

text \<open>
  \<^verbatim>\<open>Object.keys(o)\<close> for a plain object: the names that are array indices first, in
  ascending order, then the other names in the order in which the properties were created.
\<close>

definition objectKeys :: "(string \<times> 'a) list \<Rightarrow> string list" where
  "objectKeys ps =
     (let names = rev (remdups (rev (map fst ps)))
      in map showNat (sort (List.map_filter arrayIndex names))
         @ filter (\<lambda>name. arrayIndex name = None) names)"

text \<open>
  \<^verbatim>\<open>o[name]\<close> for a plain object and any name: the own property, else the member of that name
  that every plain object inherits from \<^verbatim>\<open>Object.prototype\<close> (eleven methods, and the accessor
  \<^verbatim>\<open>__proto__\<close>, which answers with the prototype itself), else \<^verbatim>\<open>undefined\<close>. An inherited
  member is neither \<^verbatim>\<open>null\<close> nor \<^verbatim>\<open>undefined\<close> and is no value of JSON; it is given by its name.
\<close>

definition objectPrototypeKeys :: "string list" where
  "objectPrototypeKeys =
     [''constructor'', ''__defineGetter__'', ''__defineSetter__'', ''hasOwnProperty'',
      ''__lookupGetter__'', ''__lookupSetter__'', ''isPrototypeOf'', ''propertyIsEnumerable'',
      ''toString'', ''valueOf'', ''__proto__'', ''toLocaleString'']"

datatype 'n member = Own "'n jsval" | Inherited string | Absent

definition memberOf :: "(string \<times> 'n jsval) list \<Rightarrow> string \<Rightarrow> 'n member" where
  "memberOf ps name =
     (case map_of ps name of
        Some v \<Rightarrow> Own v
      | None \<Rightarrow> if name \<in> set objectPrototypeKeys then Inherited name else Absent)"

section \<open>Jobs browser (\<^verbatim>\<open>jobs.js\<close>)\<close>

text \<open>
  The module state is the page counter; the three filter controls belong to the page, which
  is taken to have them and the list element that \<^verbatim>\<open>loadJobs\<close> writes to. The model records
  every URL handed to \<^verbatim>\<open>fetch\<close>, oldest first. What \<^verbatim>\<open>loadStats\<close> and \<^verbatim>\<open>loadJobs\<close> do once the
  response has arrived (drawing the counts, the cards and the pagination controls) does
  not touch the counter and is not modelled.

  The counter is an IEEE double. It starts at 1 and the script only adds 1 to it or
  subtracts 1 from it, so it always holds a whole number, which the model keeps as an
  integer. Whole numbers up to \<open>2\<^sup>5\<^sup>3\<close> in magnitude are doubles and are added exactly; from
  there on only every second whole number is a double, the exact sum lies half way
  between two doubles and is rounded to the one with the even significand (beyond
  \<open>2\<^sup>5\<^sup>4\<close>, where the doubles are four or more apart, that is the operand itself). So
  \<^verbatim>\<open>currentPage++\<close> at \<open>2\<^sup>5\<^sup>3\<close> leaves the counter at \<open>2\<^sup>5\<^sup>3\<close>. An integer that is not a double
  is not a value of the counter.
\<close>

definition maxCounter :: int where
  "maxCounter = 9007199254740992"

text \<open>\<^verbatim>\<open>n + 1\<close> and \<^verbatim>\<open>n - 1\<close> on a double that holds the whole number \<open>n\<close>.\<close>

definition increment :: "int \<Rightarrow> int" where
  "increment n =
     (if - maxCounter \<le> n \<and> n < maxCounter then n + 1
      else if even (n div 2) then n else n + 2)"

definition decrement :: "int \<Rightarrow> int" where
  "decrement n =
     (if - maxCounter < n \<and> n \<le> maxCounter then n - 1
      else if even (n div 2) then n else n - 2)"

record jobs =
  currentPage :: int
  jobTypeFilter :: string
  sourceFilter :: string
  locationFilter :: string
  fetched :: "string list"

definition limit :: int where
  "limit = 20"

text \<open>
  The URL that \<^verbatim>\<open>loadJobs\<close> builds. A template literal writes a whole number below \<open>10\<^sup>2\<^sup>1\<close>
  in decimal digits, which is what \<open>showInt\<close> gives; the counter stays below that.
\<close>

definition jobsUrl :: "jobs \<Rightarrow> string" where
  "jobsUrl s =
     (let url = ''/api/v1/jobs/list?page='' @ showInt (currentPage s) @ ''&limit='' @ showInt limit;
          url = (if jobTypeFilter s \<noteq> [] then url @ ''&job_type='' @ jobTypeFilter s else url);
          url = (if sourceFilter s \<noteq> [] then url @ ''&source='' @ sourceFilter s else url);
          url = (if locationFilter s \<noteq> [] then url @ ''&location='' @ locationFilter s else url)
      in url)"

definition loadStats :: "jobs \<Rightarrow> jobs" where
  "loadStats s = s\<lparr>fetched := fetched s @ [''/api/v1/jobs/stats/count'']\<rparr>"

definition loadJobs :: "jobs \<Rightarrow> jobs" where
  "loadJobs s = s\<lparr>fetched := fetched s @ [jobsUrl s]\<rparr>"

definition previousPage :: "jobs \<Rightarrow> jobs" where
  "previousPage s =
     (if currentPage s > 1 then loadJobs (s\<lparr>currentPage := decrement (currentPage s)\<rparr>) else s)"

definition nextPage :: "jobs \<Rightarrow> jobs" where
  "nextPage s = loadJobs (s\<lparr>currentPage := increment (currentPage s)\<rparr>)"

text \<open>
  The state when the page has loaded: the counter is 1, and the \<^verbatim>\<open>DOMContentLoaded\<close> handler
  has called \<^verbatim>\<open>loadStats\<close> and then \<^verbatim>\<open>loadJobs\<close>, each of which issues its fetch before it
  first waits.
\<close>

definition initialJobs :: "string \<Rightarrow> string \<Rightarrow> string \<Rightarrow> jobs" where
  "initialJobs jt src loc =
     loadJobs (loadStats \<lparr>currentPage = 1, jobTypeFilter = jt, sourceFilter = src,
                          locationFilter = loc, fetched = []\<rparr>)"

section \<open>Outcome of an event handler\<close>

text \<open>
  An exception that escapes a handler leaves the module state as it was at the throw.
  \<open>Normal s\<close>: the handler returned and left state \<open>s\<close>; \<open>Thrown e s\<close>: \<open>e\<close> was thrown
  when the state was \<open>s\<close>.
\<close>

datatype 's outcome = Normal 's | Thrown error 's

fun stateOf :: "'s outcome \<Rightarrow> 's" where
  "stateOf (Normal s) = s"
| "stateOf (Thrown e s) = s"

fun completed :: "'s outcome \<Rightarrow> bool" where
  "completed (Normal s) = True"
| "completed (Thrown e s) = False"

section \<open>Analytics dashboard (\<^verbatim>\<open>analytics_dashboard.js\<close>)\<close>

text \<open>
  The fields of a query response that \<^verbatim>\<open>displayResults\<close> branches on. \<^verbatim>\<open>chart_type\<close> is a
  string (the handler calls \<^verbatim>\<open>toLowerCase\<close> on it).
\<close>

record 'n queryResult =
  chart_type :: string
  chart_data :: "'n jsval"
  raw_data :: "'n jsval"

text \<open>
  The configuration handed to the charting library: \<^verbatim>\<open>config.type\<close>, \<^verbatim>\<open>data.labels\<close>, and the
  label and data of the single dataset. Colours, borders, legend, scales and tooltip are
  presentation and are left out.
\<close>

record 'n chartConfig =
  cfg_type :: string
  cfg_labels :: "'n jsval"
  dataset_label :: "'n jsval"
  dataset_data :: "'n jsval"

text \<open>
  What the dashboard script cannot decide by itself: whether the optional elements exist,
  whether the charting library accepts a configuration (\<^verbatim>\<open>new Chart\<close> sits in a
  \<^verbatim>\<open>try\<close>/\<^verbatim>\<open>catch\<close>), whether \<^verbatim>\<open>renderTable\<close> gets through a dataset, and the truthiness of
  a number.
\<close>

record 'n dashboardPage =
  hasChartSection :: bool
  hasExportBtn :: bool
  chartLib :: "'n chartConfig \<Rightarrow> bool"
  tableRenders :: "'n jsval \<Rightarrow> bool"
  numTruthy :: "'n \<Rightarrow> bool"

text \<open>
  \<^verbatim>\<open>currentChart\<close> is the module variable; the flags are the \<^verbatim>\<open>hidden\<close> class of the page
  sections; \<open>tableData\<close> is the dataset last drawn by \<^verbatim>\<open>renderTable\<close>. The texts that
  \<^verbatim>\<open>displayResults\<close> and \<^verbatim>\<open>displayLLMQuery\<close> write into the page (query intent, insights,
  chart title, generated query) are not part of the state.
\<close>

record 'n dashboard =
  currentChart :: "'n chartConfig option"
  loadingStateHidden :: bool
  errorStateHidden :: bool
  resultsSectionHidden :: bool
  chartSectionHidden :: bool
  exportBtnHidden :: bool
  tableData :: "'n jsval option"

definition validChartTypes :: "string list" where
  "validChartTypes = [''bar'', ''line'', ''pie'', ''doughnut'', ''radar'', ''polarArea'']"

text \<open>\<^verbatim>\<open>v[0]\<close> for a truthy \<open>v\<close>.\<close>

fun firstOf :: "'n jsval \<Rightarrow> 'n jsval" where
  "firstOf (JArr (x # xs) ps) = x"
| "firstOf (JObj ps) = getOwn ps ''0''"
| "firstOf (JStr (c # cs)) = JStr [c]"
| "firstOf v = JUndefined"

text \<open>\<^verbatim>\<open>v.name\<close> where \<open>v\<close> is known not to be \<^verbatim>\<open>null\<close> or \<^verbatim>\<open>undefined\<close>.\<close>

definition propOf :: "'n jsval \<Rightarrow> string \<Rightarrow> 'n jsval" where
  "propOf v k = (case getNamed v k of Inl e \<Rightarrow> JUndefined | Inr w \<Rightarrow> w)"

text \<open>
  The two accepted shapes of chart data, lines 338 to 358 of the script: the pair
  (\<^verbatim>\<open>labels\<close>, \<^verbatim>\<open>dataValues\<close>).
\<close>

definition chartSeries :: "('n \<Rightarrow> bool) \<Rightarrow> 'n jsval \<Rightarrow> 'n jsval \<times> 'n jsval" where
  "chartSeries nz chartData =
     (let datasets = propOf chartData ''datasets'';
          hasFirst = (truthy nz datasets \<and> truthy nz (firstOf datasets))
      in if isArray (propOf chartData ''labels'') then
           (propOf chartData ''labels'',
            if hasFirst then propOf (firstOf datasets) ''data''
            else if truthy nz (propOf chartData ''data'') then propOf chartData ''data''
            else JArr [] [])
         else if hasFirst then
           (if truthy nz (propOf (firstOf datasets) ''labels'') then propOf (firstOf datasets) ''labels''
            else JArr [] [],
            propOf (firstOf datasets) ''data'')
         else (JArr [] [], JArr [] []))"

definition renderChart ::
  "'n dashboardPage \<Rightarrow> string \<Rightarrow> 'n jsval \<Rightarrow> 'n dashboard \<Rightarrow> 'n dashboard outcome" where
  "renderChart pg chartType chartData st =
     (let st1 = st\<lparr>currentChart := None\<rparr>
      in if toLowerCase chartType = ''table'' then Normal st1
         else
           let chartType = (if toLowerCase chartType \<in> set validChartTypes then chartType
                            else ''bar'')
           in case getNamed chartData ''labels'' of
                Inl e \<Rightarrow> Thrown e st1
              | Inr l \<Rightarrow>
                  let (labels, dataValues) = chartSeries (numTruthy pg) chartData;
                      title = propOf chartData ''title'';
                      config = \<lparr>cfg_type = chartType, cfg_labels = labels,
                                dataset_label = (if truthy (numTruthy pg) title then title
                                                 else JStr ''Value''),
                                dataset_data = dataValues\<rparr>
                  in if chartLib pg config then Normal (st1\<lparr>currentChart := Some config\<rparr>)
                     else Normal st1)"

definition renderTable :: "'n dashboardPage \<Rightarrow> 'n jsval \<Rightarrow> 'n dashboard \<Rightarrow> 'n dashboard outcome" where
  "renderTable pg data st =
     (if tableRenders pg data then Normal (st\<lparr>tableData := Some data\<rparr>) else Thrown TypeError st)"

definition displayResults ::
  "'n dashboardPage \<Rightarrow> 'n queryResult \<Rightarrow> 'n dashboard \<Rightarrow> 'n dashboard outcome" where
  "displayResults pg data st =
     (let st1 = st\<lparr>loadingStateHidden := True, errorStateHidden := True,
                    resultsSectionHidden := False\<rparr>;
          chartType = toLowerCase (chart_type data);
          charted =
            (if chartType = ''table'' then
               Normal (if hasChartSection pg then st1\<lparr>chartSectionHidden := True\<rparr> else st1)
             else if hasChartSection pg then
               (case getNamed (chart_data data) ''title'' of
                  Inl e \<Rightarrow> Thrown e (st1\<lparr>chartSectionHidden := False\<rparr>)
                | Inr t \<Rightarrow>
                    renderChart pg (chart_type data) (chart_data data)
                      (st1\<lparr>chartSectionHidden := False\<rparr>))
             else Normal st1)
      in case charted of
           Thrown e s \<Rightarrow> Thrown e s
         | Normal st2 \<Rightarrow>
             (case renderTable pg (raw_data data) st2 of
                Thrown e s \<Rightarrow> Thrown e s
              | Normal st3 \<Rightarrow>
                  Normal (if hasExportBtn pg then st3\<lparr>exportBtnHidden := False\<rparr> else st3)))"

subsection \<open>CSV export\<close>

text \<open>
  \<^verbatim>\<open>String(value)\<close> first asks the value for its \<^verbatim>\<open>toString\<close> method, then for \<^verbatim>\<open>valueOf\<close>, and
  throws a \<^verbatim>\<open>TypeError\<close> when neither gives a primitive. A value decoded from JSON holds no
  function, so an own property named \<^verbatim>\<open>toString\<close> hides the inherited method, and then the
  conversion of an object or an array throws (the inherited \<^verbatim>\<open>valueOf\<close> answers with the
  object itself, and an own \<^verbatim>\<open>valueOf\<close> is no function either). Without it an object is
  \<^verbatim>\<open>[object Object]\<close>, and an array is joined by \<^verbatim>\<open>Array.prototype.toString\<close>: the strings of
  its elements, separated by commas, with \<^verbatim>\<open>null\<close> and \<^verbatim>\<open>undefined\<close> elements empty; when an
  own property \<^verbatim>\<open>join\<close> hides the inherited one, it falls back to \<^verbatim>\<open>[object Array]\<close>.
  \<open>stringifies\<close> says that the conversion does not throw, \<open>jsString\<close> is its result then;
  \<open>str\<close> renders a number.
\<close>

fun stringifies :: "'n jsval \<Rightarrow> bool"
  and elementsStringify :: "'n jsval list \<Rightarrow> bool" where
  "stringifies (JObj ps) = (''toString'' \<notin> set (map fst ps))"
| "stringifies (JArr xs ps) =
     (''toString'' \<notin> set (map fst ps) \<and> (''join'' \<in> set (map fst ps) \<or> elementsStringify xs))"
| "stringifies v = True"
| "elementsStringify [] = True"
| "elementsStringify (x # xs) =
     ((x = JNull \<or> x = JUndefined \<or> stringifies x) \<and> elementsStringify xs)"

fun jsString :: "('n \<Rightarrow> string) \<Rightarrow> 'n jsval \<Rightarrow> string"
  and joinElems :: "('n \<Rightarrow> string) \<Rightarrow> 'n jsval list \<Rightarrow> string" where
  "jsString str JUndefined = ''undefined''"
| "jsString str JNull = ''null''"
| "jsString str (JBool b) = (if b then ''true'' else ''false'')"
| "jsString str (JNum n) = str n"
| "jsString str (JStr s) = s"
| "jsString str (JArr xs ps) =
     (if ''join'' \<in> set (map fst ps) then ''[object Array]'' else joinElems str xs)"
| "jsString str (JObj ps) = ''[object Object]''"
| "joinElems str [] = []"
| "joinElems str [x] = (if x = JNull \<or> x = JUndefined then [] else jsString str x)"
| "joinElems str (x # y # ys) =
     (if x = JNull \<or> x = JUndefined then [] else jsString str x) @ '','' @ joinElems str (y # ys)"

text \<open>\<^verbatim>\<open>s.replace(/"/g, '""')\<close>\<close>

definition doubleQuotes :: "string \<Rightarrow> string" where
  "doubleQuotes s = concat (map (\<lambda>c. if c = CHR 0x22 then [CHR 0x22, CHR 0x22] else [c]) s)"

text \<open>\<^verbatim>\<open>xs.join(',')\<close> on strings.\<close>

fun joinComma :: "string list \<Rightarrow> string" where
  "joinComma [] = []"
| "joinComma [x] = x"
| "joinComma (x # y # ys) = x @ '','' @ joinComma (y # ys)"

definition csvHeaderField :: "string \<Rightarrow> string" where
  "csvHeaderField col = [CHR 0x22] @ doubleQuotes col @ [CHR 0x22]"

text \<open>
  The field of one column of one row, the body of the inner \<^verbatim>\<open>map\<close>. \<open>native\<close> gives the
  string that \<^verbatim>\<open>String\<close> makes of an inherited member, the text with which the browser
  prints a built-in function (and \<^verbatim>\<open>[object Object]\<close> for the prototype).
\<close>

definition csvValue ::
  "('n \<Rightarrow> string) \<Rightarrow> (string \<Rightarrow> string) \<Rightarrow> (string \<times> 'n jsval) list \<Rightarrow> string \<Rightarrow> error + string" where
  "csvValue str native row col =
     (case memberOf row col of
        Absent \<Rightarrow> Inr []
      | Inherited name \<Rightarrow> Inr ([CHR 0x22] @ doubleQuotes (native name) @ [CHR 0x22])
      | Own v \<Rightarrow>
          if v = JNull \<or> v = JUndefined then Inr []
          else if stringifies v then Inr ([CHR 0x22] @ doubleQuotes (jsString str v) @ [CHR 0x22])
          else Inl TypeError)"

text \<open>\<^verbatim>\<open>xs.map(f)\<close> for an \<open>f\<close> that may throw: the first exception ends the call.\<close>

fun mapThrowing :: "('a \<Rightarrow> error + 'b) \<Rightarrow> 'a list \<Rightarrow> error + 'b list" where
  "mapThrowing f [] = Inr []"
| "mapThrowing f (x # xs) =
     (case f x of
        Inl e \<Rightarrow> Inl e
      | Inr y \<Rightarrow> (case mapThrowing f xs of Inl e \<Rightarrow> Inl e | Inr ys \<Rightarrow> Inr (y # ys)))"

definition csvRow ::
  "('n \<Rightarrow> string) \<Rightarrow> (string \<Rightarrow> string) \<Rightarrow> string list \<Rightarrow> (string \<times> 'n jsval) list \<Rightarrow> error + string" where
  "csvRow str native columns row =
     (case mapThrowing (csvValue str native row) columns of
        Inl e \<Rightarrow> Inl e
      | Inr values \<Rightarrow> Inr (joinComma values @ [CHR 0x0A]))"

text \<open>The \<^verbatim>\<open>forEach\<close> that appends one line per row to \<^verbatim>\<open>csv\<close>.\<close>

fun appendRows :: "('r \<Rightarrow> error + string) \<Rightarrow> string \<Rightarrow> 'r list \<Rightarrow> error + string" where
  "appendRows line csv [] = Inr csv"
| "appendRows line csv (row # rows) =
     (case line row of
        Inl e \<Rightarrow> Inl e
      | Inr l \<Rightarrow> appendRows line (csv @ l) rows)"

text \<open>
  \<^verbatim>\<open>exportToCSV\<close> on the module variable \<^verbatim>\<open>currentRawData\<close>, an array of rows; a row is a plain
  object as \<^verbatim>\<open>response.json()\<close> decodes it, given by its properties (a member of the JSON
  text named \<^verbatim>\<open>__proto__\<close> is an own property like any other). The result is the text of the
  downloaded file, or \<open>None\<close> when the handler alerts that there is no data and returns;
  when a conversion throws, the handler ends with the exception and nothing is downloaded.
\<close>

definition exportToCSV ::
  "('n \<Rightarrow> string) \<Rightarrow> (string \<Rightarrow> string) \<Rightarrow> (string \<times> 'n jsval) list list \<Rightarrow> error + string option" where
  "exportToCSV str native currentRawData =
     (case currentRawData of
        [] \<Rightarrow> Inr None
      | first # rest \<Rightarrow>
          let columns = objectKeys first;
              csv = joinComma (map csvHeaderField columns) @ [CHR 0x0A]
          in case appendRows (csvRow str native columns) csv currentRawData of
               Inl e \<Rightarrow> Inl e
             | Inr csv \<Rightarrow> Inr (Some csv))"

section \<open>Profile wizard (\<^verbatim>\<open>profile_new.js\<close>)\<close>

subsection \<open>Sanitizing the draft\<close>

text \<open>
  The draft \<^verbatim>\<open>profileData\<close> is an object; the model holds its properties.
\<close>

type_synonym 'n draft = "(string \<times> 'n jsval) list"

definition defaultPreferences :: "'n jsval" where
  "defaultPreferences =
     JObj [(''employment_type'', JArr [] []), (''work_mode'', JArr [] []),
           (''preferred_roles'', JNull), (''preferred_industries'', JNull),
           (''expected_salary'', JNull), (''willing_to_relocate'', JNull),
           (''notice_period'', JNull), (''availability_date'', JNull),
           (''preferred_locations'', JNull)]"

definition defaultLinks :: "'n jsval" where
  "defaultLinks =
     JObj [(''linkedin'', JNull), (''github'', JNull), (''portfolio'', JNull),
           (''resume_link'', JNull), (''twitter'', JNull), (''leetcode'', JNull)]"

text \<open>\<^verbatim>\<open>if (!Array.isArray(profileData.k)) profileData.k = [];\<close>\<close>

definition ensureArray :: "string \<Rightarrow> 'n draft \<Rightarrow> 'n draft" where
  "ensureArray k pd = (if isArray (getOwn pd k) then pd else setOwn pd k (JArr [] []))"

text \<open>The same statement on a property of the nested object \<open>v\<close>, which is mutated in place.\<close>

definition ensureArrayIn :: "string \<Rightarrow> 'n jsval \<Rightarrow> 'n jsval" where
  "ensureArrayIn k v = (if isArray (propOf v k) then v else setNamed v k (JArr [] []))"

definition sanitizePreferences :: "'n draft \<Rightarrow> 'n draft" where
  "sanitizePreferences pd =
     (let preferences = getOwn pd ''preferences''
      in if \<not> isObjectLike preferences then setOwn pd ''preferences'' defaultPreferences
         else setOwn pd ''preferences''
                (ensureArrayIn ''work_mode'' (ensureArrayIn ''employment_type'' preferences)))"

definition sanitizeLinks :: "'n draft \<Rightarrow> 'n draft" where
  "sanitizeLinks pd =
     (if \<not> isObjectLike (getOwn pd ''links'') then setOwn pd ''links'' defaultLinks else pd)"

text \<open>
  The callback of \<^verbatim>\<open>profileData.projects.map\<close>. Reading \<^verbatim>\<open>proj.tech_stack\<close> throws when the
  entry is \<^verbatim>\<open>null\<close> or \<^verbatim>\<open>undefined\<close>.
\<close>

definition sanitizeProject :: "'n jsval \<Rightarrow> error + 'n jsval" where
  "sanitizeProject proj =
     (case getNamed proj ''tech_stack'' of
        Inl e \<Rightarrow> Inl e
      | Inr (JStr s) \<Rightarrow> Inr (setNamed proj ''tech_stack'' (JArr (map JStr (splitTags s)) []))
      | Inr v \<Rightarrow> Inr (if isArray v then proj else setNamed proj ''tech_stack'' (JArr [] [])))"

text \<open>
  \<^verbatim>\<open>map\<close> visits the entries in order and mutates each in place. When the callback throws,
  the entries visited so far stay mutated and the rest is untouched; the second component
  is the error.
\<close>

fun sanitizeProjects :: "'n jsval list \<Rightarrow> 'n jsval list \<times> error option" where
  "sanitizeProjects [] = ([], None)"
| "sanitizeProjects (proj # rest) =
     (case sanitizeProject proj of
        Inl e \<Rightarrow> (proj # rest, Some e)
      | Inr proj' \<Rightarrow> (case sanitizeProjects rest of (rest', r) \<Rightarrow> (proj' # rest', r)))"

text \<open>
  The statements of \<^verbatim>\<open>sanitizeProfileData\<close> before the loop over the projects: the five
  sub-collections, then \<^verbatim>\<open>preferences\<close>, then \<^verbatim>\<open>links\<close>.
\<close>

definition sanitizeShapes :: "'n draft \<Rightarrow> 'n draft" where
  "sanitizeShapes profileData =
     (let pd = ensureArray ''education'' profileData;
          pd = ensureArray ''skills'' pd;
          pd = ensureArray ''experience'' pd;
          pd = ensureArray ''projects'' pd;
          pd = ensureArray ''certifications'' pd;
          pd = sanitizePreferences pd;
          pd = sanitizeLinks pd
      in pd)"

text \<open>
  \<^verbatim>\<open>sanitizeProfileData\<close>. On success \<^verbatim>\<open>profileData.projects\<close> is the fresh array that \<^verbatim>\<open>map\<close>
  returned; when the callback throws the assignment does not happen and the old array
  keeps its entries as they are by then.
\<close>

definition sanitizeProfileData :: "'n draft \<Rightarrow> 'n draft outcome" where
  "sanitizeProfileData profileData =
     (let pd = sanitizeShapes profileData
      in case getOwn pd ''projects'' of
           JArr projects ps \<Rightarrow>
             (case sanitizeProjects projects of
                (projects', None) \<Rightarrow> Normal (setOwn pd ''projects'' (JArr projects' []))
              | (projects', Some e) \<Rightarrow> Thrown e (setOwn pd ''projects'' (JArr projects' ps)))
         | v \<Rightarrow> Normal pd)"

subsection \<open>Wizard state\<close>

datatype collection = Education | Skill | Experience | Project | Certification

fun collectionKey :: "collection \<Rightarrow> string" where
  "collectionKey Education = ''education''"
| "collectionKey Skill = ''skills''"
| "collectionKey Experience = ''experience''"
| "collectionKey Project = ''projects''"
| "collectionKey Certification = ''certifications''"

text \<open>
  The module variables of the script. \<open>editing st Education\<close> is \<^verbatim>\<open>editingEducation\<close>, and so
  on for \<^verbatim>\<open>editingSkill\<close>, \<^verbatim>\<open>editingExperience\<close>, \<^verbatim>\<open>editingProject\<close> and
  \<^verbatim>\<open>editingCertification\<close>; \<open>modalHidden st c\<close> is the \<^verbatim>\<open>hidden\<close> class of the modal of editor
  \<open>c\<close>. \<^verbatim>\<open>showNotification\<close> only logs (and alerts on an error); the model keeps the log,
  message and type, oldest first.
\<close>

record 'n wizard =
  currentStep :: int
  profileData :: "'n draft"
  editing :: "collection \<Rightarrow> int"
  modalHidden :: "collection \<Rightarrow> bool"
  notifications :: "(string \<times> string) list"

definition totalSteps :: int where
  "totalSteps = 5"

text \<open>
  What the wizard script reads from the page and cannot decide by itself. The page
  template provides every element the script addresses without a guard.

  \<^item> \<open>stepContent pg n\<close>: the \<^verbatim>\<open>[required]\<close> controls inside the element
    \<^verbatim>\<open>.step-content[data-step="n"]\<close>, in document order, each with the text of its previous
    sibling element (if there is one) and its value; \<open>None\<close> when there is no such element.
  \<^item> \<open>renders pg c xs\<close>: the list renderer of editor \<open>c\<close> gets through the non-empty list
    \<open>xs\<close> without throwing (it reads properties of every entry). The markup it writes is
    not modelled.
  \<^item> \<open>isZero pg n\<close>: the number \<open>n\<close> is \<^verbatim>\<open>=== 0\<close>.
\<close>

record 'n wizardPage =
  stepContent :: "int \<Rightarrow> (string option \<times> string) list option"
  renders :: "collection \<Rightarrow> 'n jsval list \<Rightarrow> bool"
  isZero :: "'n \<Rightarrow> bool"

definition showNotification :: "string \<Rightarrow> string \<Rightarrow> 'n wizard \<Rightarrow> 'n wizard" where
  "showNotification message type st = st\<lparr>notifications := notifications st @ [(message, type)]\<rparr>"

subsection \<open>Navigation\<close>

text \<open>\<^verbatim>\<open>v.length === 0\<close>\<close>

fun lengthIsZero :: "('n \<Rightarrow> bool) \<Rightarrow> 'n jsval \<Rightarrow> error + bool" where
  "lengthIsZero z JUndefined = Inl TypeError"
| "lengthIsZero z JNull = Inl TypeError"
| "lengthIsZero z (JArr xs ps) = Inr (xs = [])"
| "lengthIsZero z (JStr s) = Inr (s = [])"
| "lengthIsZero z (JObj ps) = Inr (case getOwn ps ''length'' of JNum n \<Rightarrow> z n | v \<Rightarrow> False)"
| "lengthIsZero z v = Inr False"

text \<open>
  \<^verbatim>\<open>input.previousElementSibling?.textContent?.replace('*', '').trim() || 'This field'\<close>
\<close>

definition labelOf :: "string option \<Rightarrow> string" where
  "labelOf sibling =
     (case sibling of
        None \<Rightarrow> ''This field''
      | Some text \<Rightarrow>
          let label = trim (remove1 CHR ''*'' text)
          in if label = [] then ''This field'' else label)"

text \<open>
  \<^verbatim>\<open>validateStep\<close>: the verdict and the state (a warning may have been logged), or the error
  thrown; nothing has changed when it throws.
\<close>

definition validateStep :: "'n wizardPage \<Rightarrow> int \<Rightarrow> 'n wizard \<Rightarrow> error + (bool \<times> 'n wizard)" where
  "validateStep pg step st =
     (case stepContent pg step of
        None \<Rightarrow> Inl TypeError
      | Some requiredInputs \<Rightarrow>
          (case find (\<lambda>input. trim (snd input) = []) requiredInputs of
             Some input \<Rightarrow>
               Inr (False, showNotification (''Please fill in: '' @ labelOf (fst input)) ''warning'' st)
           | None \<Rightarrow>
               (case (if step = 2 then lengthIsZero (isZero pg) (getOwn (profileData st) ''education'')
                      else Inr False) of
                  Inl e \<Rightarrow> Inl e
                | Inr True \<Rightarrow>
                    Inr (False,
                         showNotification ''Please add at least one education entry'' ''warning'' st)
                | Inr False \<Rightarrow>
                    (case (if step = 3 then lengthIsZero (isZero pg) (getOwn (profileData st) ''skills'')
                           else Inr False) of
                       Inl e \<Rightarrow> Inl e
                     | Inr True \<Rightarrow>
                         Inr (False, showNotification ''Please add at least one skill'' ''warning'' st)
                     | Inr False \<Rightarrow> Inr (True, st)))))"

definition nextStep :: "'n wizardPage \<Rightarrow> 'n wizard \<Rightarrow> 'n wizard outcome" where
  "nextStep pg st =
     (case validateStep pg (currentStep st) st of
        Inl e \<Rightarrow> Thrown e st
      | Inr (False, st') \<Rightarrow> Normal st'
      | Inr (True, st') \<Rightarrow>
          if currentStep st' < totalSteps then Normal (st'\<lparr>currentStep := currentStep st' + 1\<rparr>)
          else Normal st')"

definition prevStep :: "'n wizard \<Rightarrow> 'n wizard" where
  "prevStep st = (if currentStep st > 1 then st\<lparr>currentStep := currentStep st - 1\<rparr> else st)"

definition showWizardView :: "'n wizard \<Rightarrow> 'n wizard" where
  "showWizardView st = st\<lparr>currentStep := 1\<rparr>"

subsection \<open>Sub-collection editors\<close>

text \<open>
  The script has one copy of each editor function per sub-collection; they differ in the
  property of the draft, the sentinel, the modal, the form fields and the message. The
  common part is defined once, with the editor as a parameter, and each function of the
  script is an instance of it.
\<close>

definition openForm :: "collection \<Rightarrow> 'n wizard \<Rightarrow> 'n wizard" where
  "openForm c st = st\<lparr>editing := (editing st)(c := - 1), modalHidden := (modalHidden st)(c := False)\<rparr>"

definition closeModal :: "collection \<Rightarrow> 'n wizard \<Rightarrow> 'n wizard" where
  "closeModal c st = st\<lparr>modalHidden := (modalHidden st)(c := True), editing := (editing st)(c := - 1)\<rparr>"

text \<open>\<^verbatim>\<open>v[index]\<close> for an integer \<open>index\<close>.\<close>

fun elementAt :: "'n jsval \<Rightarrow> int \<Rightarrow> error + 'n jsval" where
  "elementAt JUndefined i = Inl TypeError"
| "elementAt JNull i = Inl TypeError"
| "elementAt (JArr xs ps) i =
     Inr (if 0 \<le> i \<and> i < int (length xs) then xs ! nat i else getOwn ps (showInt i))"
| "elementAt (JStr s) i =
     Inr (if 0 \<le> i \<and> i < int (length s) then JStr [s ! nat i] else JUndefined)"
| "elementAt (JObj ps) i = Inr (getOwn ps (showInt i))"
| "elementAt v i = Inr JUndefined"

text \<open>
  \<^verbatim>\<open>editX(index)\<close>: the sentinel is set first; loading the form reads properties of the
  entry, which throws when there is no entry at \<open>index\<close>.
\<close>

definition editEntry :: "collection \<Rightarrow> int \<Rightarrow> 'n wizard \<Rightarrow> 'n wizard outcome" where
  "editEntry c index st =
     (let st1 = st\<lparr>editing := (editing st)(c := index)\<rparr>
      in case elementAt (getOwn (profileData st) (collectionKey c)) index of
           Inl e \<Rightarrow> Thrown e st1
         | Inr entry \<Rightarrow>
             if entry = JNull \<or> entry = JUndefined then Thrown TypeError st1
             else Normal (st1\<lparr>modalHidden := (modalHidden st1)(c := False)\<rparr>))"

text \<open>
  \<^verbatim>\<open>xs[i] = v\<close> on an array, for \<open>i \<ge> 0\<close>: in range the element is replaced; beyond the end
  JavaScript extends the array and leaves holes in between. A hole reads as \<^verbatim>\<open>undefined\<close>,
  and the model writes \<^verbatim>\<open>undefined\<close> for it; unlike an element that is \<^verbatim>\<open>undefined\<close>, a hole
  is passed over by \<^verbatim>\<open>map\<close>, so after a store beyond the end \<open>renders\<close> speaks of a list
  whose \<^verbatim>\<open>undefined\<close> elements from the gap the renderer does not visit. The sentinel is
  beyond the end only after \<^verbatim>\<open>editX\<close> was called with an index that has no entry, and thrown.
\<close>

definition storeAt :: "'n jsval list \<Rightarrow> nat \<Rightarrow> 'n jsval \<Rightarrow> 'n jsval list" where
  "storeAt xs i v =
     (if i < length xs then xs[i := v] else xs @ replicate (i - length xs) JUndefined @ [v])"

text \<open>
  The tail of every \<^verbatim>\<open>saveXEntry\<close>:
  \<^verbatim>\<open>if (editingX >= 0) profileData.xs[editingX] = entry; else profileData.xs.push(entry);\<close>
  then the list is rendered, the modal closed and the success logged. A draft property
  that is not an array has no \<^verbatim>\<open>push\<close> and no \<^verbatim>\<open>map\<close>: pushing throws before anything
  changes, and after an indexed assignment the renderer throws unless it sees
  \<^verbatim>\<open>length === 0\<close>.
\<close>

definition saveEntry ::
  "'n wizardPage \<Rightarrow> collection \<Rightarrow> 'n jsval \<Rightarrow> string \<Rightarrow> 'n wizard \<Rightarrow> 'n wizard outcome" where
  "saveEntry pg c entry message st =
     (let key = collectionKey c;
          coll = getOwn (profileData st) key;
          i = editing st c
      in case coll of
           JArr xs ps \<Rightarrow>
             let xs' = (if i \<ge> 0 then storeAt xs (nat i) entry else xs @ [entry]);
                 st1 = st\<lparr>profileData := setOwn (profileData st) key (JArr xs' ps)\<rparr>
             in if renders pg c xs' then Normal (showNotification message ''success'' (closeModal c st1))
                else Thrown TypeError st1
         | v \<Rightarrow>
             if i \<ge> 0 \<and> coll \<noteq> JUndefined \<and> coll \<noteq> JNull then
               let coll' = setNamed coll (showInt i) entry;
                   st1 = st\<lparr>profileData := setOwn (profileData st) key coll'\<rparr>
               in if lengthIsZero (isZero pg) coll' = Inr True
                  then Normal (showNotification message ''success'' (closeModal c st1))
                  else Thrown TypeError st1
             else Thrown TypeError st)"

text \<open>\<^verbatim>\<open>xs.splice(index, 1)\<close>: a negative start counts from the end.\<close>

definition splice1 :: "'n jsval list \<Rightarrow> int \<Rightarrow> 'n jsval list" where
  "splice1 xs index =
     (let len = int (length xs);
          start = nat (if index < 0 then max (len + index) 0 else min index len)
      in take start xs @ drop (start + 1) xs)"

text \<open>
  \<^verbatim>\<open>deleteX(index)\<close>; \<open>confirmed\<close> is the user's answer to the \<^verbatim>\<open>confirm\<close> dialogue. The
  renderer writes a placeholder for an empty list.
\<close>

definition deleteEntry ::
  "'n wizardPage \<Rightarrow> bool \<Rightarrow> collection \<Rightarrow> int \<Rightarrow> string \<Rightarrow> 'n wizard \<Rightarrow> 'n wizard outcome" where
  "deleteEntry pg confirmed c index message st =
     (if \<not> confirmed then Normal st
      else case getOwn (profileData st) (collectionKey c) of
             JArr xs ps \<Rightarrow>
               let xs' = splice1 xs index;
                   st1 = st\<lparr>profileData := setOwn (profileData st) (collectionKey c) (JArr xs' ps)\<rparr>
               in if xs' = [] \<or> renders pg c xs' then Normal (showNotification message ''success'' st1)
                  else Thrown TypeError st1
           | v \<Rightarrow> Thrown TypeError st)"

text \<open>\<^verbatim>\<open>(value && value.trim()) ? value.trim() : null\<close>; \<open>None\<close> is a control that is absent.\<close>

definition trimOrNull :: "string option \<Rightarrow> 'n jsval" where
  "trimOrNull value =
     (case value of
        None \<Rightarrow> JNull
      | Some s \<Rightarrow> if trim s \<noteq> [] then JStr (trim s) else JNull)"

subsubsection \<open>Education\<close>

record educationForm =
  edu_level :: string
  edu_board_university :: string
  edu_school_college :: string
  edu_year :: string
  edu_percentage_cgpa :: string
  edu_degree :: "string option"
  edu_branch :: "string option"

definition educationEntry :: "(string \<Rightarrow> 'n) \<Rightarrow> (string \<Rightarrow> 'n) \<Rightarrow> educationForm \<Rightarrow> 'n jsval" where
  "educationEntry parseInt parseFloat form =
     JObj [(''level'', JStr (edu_level form)),
           (''board_university'', JStr (edu_board_university form)),
           (''school_college'', JStr (edu_school_college form)),
           (''year'', JNum (parseInt (edu_year form))),
           (''percentage_cgpa'', JNum (parseFloat (edu_percentage_cgpa form))),
           (''degree'', trimOrNull (edu_degree form)),
           (''branch'', trimOrNull (edu_branch form))]"

definition openEducationForm :: "'n wizard \<Rightarrow> 'n wizard" where
  "openEducationForm = openForm Education"

definition closeEducationModal :: "'n wizard \<Rightarrow> 'n wizard" where
  "closeEducationModal = closeModal Education"

definition editEducation :: "int \<Rightarrow> 'n wizard \<Rightarrow> 'n wizard outcome" where
  "editEducation = editEntry Education"

definition saveEducationEntry ::
  "'n wizardPage \<Rightarrow> (string \<Rightarrow> 'n) \<Rightarrow> (string \<Rightarrow> 'n) \<Rightarrow> educationForm \<Rightarrow> 'n wizard \<Rightarrow> 'n wizard outcome" where
  "saveEducationEntry pg parseInt parseFloat form =
     saveEntry pg Education (educationEntry parseInt parseFloat form) ''Education entry saved''"

definition deleteEducation :: "'n wizardPage \<Rightarrow> bool \<Rightarrow> int \<Rightarrow> 'n wizard \<Rightarrow> 'n wizard outcome" where
  "deleteEducation pg confirmed index =
     deleteEntry pg confirmed Education index ''Education entry deleted''"

subsubsection \<open>Skills\<close>

record skillForm =
  skill_name :: string
  skill_proficiency :: string
  skill_category :: "string option"

definition skillEntry :: "skillForm \<Rightarrow> 'n jsval" where
  "skillEntry form =
     JObj [(''name'', JStr (trim (skill_name form))),
           (''proficiency'', JStr (skill_proficiency form)),
           (''category'', trimOrNull (skill_category form))]"

definition openSkillForm :: "'n wizard \<Rightarrow> 'n wizard" where
  "openSkillForm = openForm Skill"

definition closeSkillModal :: "'n wizard \<Rightarrow> 'n wizard" where
  "closeSkillModal = closeModal Skill"

definition editSkill :: "int \<Rightarrow> 'n wizard \<Rightarrow> 'n wizard outcome" where
  "editSkill = editEntry Skill"

definition saveSkillEntry :: "'n wizardPage \<Rightarrow> skillForm \<Rightarrow> 'n wizard \<Rightarrow> 'n wizard outcome" where
  "saveSkillEntry pg form = saveEntry pg Skill (skillEntry form) ''Skill saved''"

definition deleteSkill :: "'n wizardPage \<Rightarrow> bool \<Rightarrow> int \<Rightarrow> 'n wizard \<Rightarrow> 'n wizard outcome" where
  "deleteSkill pg confirmed index = deleteEntry pg confirmed Skill index ''Skill deleted''"

subsubsection \<open>Experience\<close>

record experienceForm =
  exp_company :: string
  exp_role :: string
  exp_start_date :: string
  exp_end_date :: "string option"
  exp_is_current :: bool
  exp_description :: string
  exp_location :: "string option"

definition experienceEntry :: "experienceForm \<Rightarrow> 'n jsval" where
  "experienceEntry form =
     JObj [(''company'', JStr (trim (exp_company form))),
           (''role'', JStr (trim (exp_role form))),
           (''start_date'', JStr (trim (exp_start_date form))),
           (''end_date'', trimOrNull (exp_end_date form)),
           (''is_current'', JBool (exp_is_current form)),
           (''description'', JStr (trim (exp_description form))),
           (''location'', trimOrNull (exp_location form))]"

definition openExperienceForm :: "'n wizard \<Rightarrow> 'n wizard" where
  "openExperienceForm = openForm Experience"

definition closeExperienceModal :: "'n wizard \<Rightarrow> 'n wizard" where
  "closeExperienceModal = closeModal Experience"

definition editExperience :: "int \<Rightarrow> 'n wizard \<Rightarrow> 'n wizard outcome" where
  "editExperience = editEntry Experience"

definition saveExperienceEntry :: "'n wizardPage \<Rightarrow> experienceForm \<Rightarrow> 'n wizard \<Rightarrow> 'n wizard outcome" where
  "saveExperienceEntry pg form = saveEntry pg Experience (experienceEntry form) ''Experience saved''"

definition deleteExperience :: "'n wizardPage \<Rightarrow> bool \<Rightarrow> int \<Rightarrow> 'n wizard \<Rightarrow> 'n wizard outcome" where
  "deleteExperience pg confirmed index = deleteEntry pg confirmed Experience index ''Experience deleted''"

subsubsection \<open>Projects\<close>

record projectForm =
  proj_title :: string
  proj_description :: string
  proj_tech_stack :: string
  proj_link :: "string option"
  proj_github_link :: "string option"
  proj_start_date :: "string option"
  proj_end_date :: "string option"

definition projectEntry :: "projectForm \<Rightarrow> 'n jsval" where
  "projectEntry form =
     JObj [(''title'', JStr (trim (proj_title form))),
           (''description'', JStr (trim (proj_description form))),
           (''tech_stack'', JArr (map JStr (splitTags (proj_tech_stack form))) []),
           (''link'', trimOrNull (proj_link form)),
           (''github_link'', trimOrNull (proj_github_link form)),
           (''start_date'', trimOrNull (proj_start_date form)),
           (''end_date'', trimOrNull (proj_end_date form))]"

definition openProjectForm :: "'n wizard \<Rightarrow> 'n wizard" where
  "openProjectForm = openForm Project"

definition closeProjectModal :: "'n wizard \<Rightarrow> 'n wizard" where
  "closeProjectModal = closeModal Project"

definition editProject :: "int \<Rightarrow> 'n wizard \<Rightarrow> 'n wizard outcome" where
  "editProject = editEntry Project"

definition saveProjectEntry :: "'n wizardPage \<Rightarrow> projectForm \<Rightarrow> 'n wizard \<Rightarrow> 'n wizard outcome" where
  "saveProjectEntry pg form st =
     (let tech_stack = splitTags (proj_tech_stack form)
      in if tech_stack = [] then
           Normal (showNotification ''Please add at least one technology in Tech Stack'' ''warning'' st)
         else saveEntry pg Project (projectEntry form) ''Project saved'' st)"

definition deleteProject :: "'n wizardPage \<Rightarrow> bool \<Rightarrow> int \<Rightarrow> 'n wizard \<Rightarrow> 'n wizard outcome" where
  "deleteProject pg confirmed index = deleteEntry pg confirmed Project index ''Project deleted''"

subsubsection \<open>Certifications\<close>

record certificationForm =
  cert_name :: string
  cert_issuer :: string
  cert_issue_date :: string
  cert_expiry_date :: "string option"
  cert_credential_id :: "string option"
  cert_credential_url :: "string option"

definition certificationEntry :: "certificationForm \<Rightarrow> 'n jsval" where
  "certificationEntry form =
     JObj [(''name'', JStr (trim (cert_name form))),
           (''issuer'', JStr (trim (cert_issuer form))),
           (''issue_date'', JStr (trim (cert_issue_date form))),
           (''expiry_date'', trimOrNull (cert_expiry_date form)),
           (''credential_id'', trimOrNull (cert_credential_id form)),
           (''credential_url'', trimOrNull (cert_credential_url form))]"

definition openCertificationForm :: "'n wizard \<Rightarrow> 'n wizard" where
  "openCertificationForm = openForm Certification"

definition closeCertificationModal :: "'n wizard \<Rightarrow> 'n wizard" where
  "closeCertificationModal = closeModal Certification"

definition editCertification :: "int \<Rightarrow> 'n wizard \<Rightarrow> 'n wizard outcome" where
  "editCertification = editEntry Certification"

definition saveCertificationEntry ::
  "'n wizardPage \<Rightarrow> certificationForm \<Rightarrow> 'n wizard \<Rightarrow> 'n wizard outcome" where
  "saveCertificationEntry pg form =
     saveEntry pg Certification (certificationEntry form) ''Certification saved''"

definition deleteCertification :: "'n wizardPage \<Rightarrow> bool \<Rightarrow> int \<Rightarrow> 'n wizard \<Rightarrow> 'n wizard outcome" where
  "deleteCertification pg confirmed index =
     deleteEntry pg confirmed Certification index ''Certification deleted''"

subsubsection \<open>Event handlers\<close>

text \<open>
  \<^verbatim>\<open>setupEventListeners\<close> binds the \<^verbatim>\<open>submit\<close> event of each form to the save function of
  its editor; the buttons of the page and of the rendered lists call the open, close, edit
  and delete function of their editor.
\<close>

datatype editorForm =
    EducationForm educationForm
  | SkillForm skillForm
  | ExperienceForm experienceForm
  | ProjectForm projectForm
  | CertificationForm certificationForm

fun editorOf :: "editorForm \<Rightarrow> collection" where
  "editorOf (EducationForm f) = Education"
| "editorOf (SkillForm f) = Skill"
| "editorOf (ExperienceForm f) = Experience"
| "editorOf (ProjectForm f) = Project"
| "editorOf (CertificationForm f) = Certification"

fun entryOf :: "(string \<Rightarrow> 'n) \<Rightarrow> (string \<Rightarrow> 'n) \<Rightarrow> editorForm \<Rightarrow> 'n jsval" where
  "entryOf parseInt parseFloat (EducationForm f) = educationEntry parseInt parseFloat f"
| "entryOf parseInt parseFloat (SkillForm f) = skillEntry f"
| "entryOf parseInt parseFloat (ExperienceForm f) = experienceEntry f"
| "entryOf parseInt parseFloat (ProjectForm f) = projectEntry f"
| "entryOf parseInt parseFloat (CertificationForm f) = certificationEntry f"

fun submit ::
  "'n wizardPage \<Rightarrow> (string \<Rightarrow> 'n) \<Rightarrow> (string \<Rightarrow> 'n) \<Rightarrow> editorForm \<Rightarrow> 'n wizard \<Rightarrow> 'n wizard outcome" where
  "submit pg parseInt parseFloat (EducationForm f) = saveEducationEntry pg parseInt parseFloat f"
| "submit pg parseInt parseFloat (SkillForm f) = saveSkillEntry pg f"
| "submit pg parseInt parseFloat (ExperienceForm f) = saveExperienceEntry pg f"
| "submit pg parseInt parseFloat (ProjectForm f) = saveProjectEntry pg f"
| "submit pg parseInt parseFloat (CertificationForm f) = saveCertificationEntry pg f"

fun openEditor :: "collection \<Rightarrow> 'n wizard \<Rightarrow> 'n wizard" where
  "openEditor Education = openEducationForm"
| "openEditor Skill = openSkillForm"
| "openEditor Experience = openExperienceForm"
| "openEditor Project = openProjectForm"
| "openEditor Certification = openCertificationForm"

fun closeEditor :: "collection \<Rightarrow> 'n wizard \<Rightarrow> 'n wizard" where
  "closeEditor Education = closeEducationModal"
| "closeEditor Skill = closeSkillModal"
| "closeEditor Experience = closeExperienceModal"
| "closeEditor Project = closeProjectModal"
| "closeEditor Certification = closeCertificationModal"

fun editAt :: "collection \<Rightarrow> int \<Rightarrow> 'n wizard \<Rightarrow> 'n wizard outcome" where
  "editAt Education = editEducation"
| "editAt Skill = editSkill"
| "editAt Experience = editExperience"
| "editAt Project = editProject"
| "editAt Certification = editCertification"

fun deleteAt :: "'n wizardPage \<Rightarrow> bool \<Rightarrow> collection \<Rightarrow> int \<Rightarrow> 'n wizard \<Rightarrow> 'n wizard outcome" where
  "deleteAt pg confirmed Education = deleteEducation pg confirmed"
| "deleteAt pg confirmed Skill = deleteSkill pg confirmed"
| "deleteAt pg confirmed Experience = deleteExperience pg confirmed"
| "deleteAt pg confirmed Project = deleteProject pg confirmed"
| "deleteAt pg confirmed Certification = deleteCertification pg confirmed"

section \<open>Vocabulary of the specification\<close>

text \<open>
  The number of lines of a text in which every line ends with a line feed.
\<close>

definition lineCount :: "string \<Rightarrow> nat" where
  "lineCount s = count_list s (CHR 0x0A)"

text \<open>
  The records of a CSV export as the specification describes them: a header naming the
  columns of the first row, then one record per row in order; a field is wrapped in
  double quotes with every embedded double quote doubled, and a \<^verbatim>\<open>null\<close> or \<^verbatim>\<open>undefined\<close>
  value is the empty field. The value of a row in a column is what \<^verbatim>\<open>row[col]\<close> is in
  JavaScript; \<open>cellText\<close> is that value as a string, and \<open>None\<close> when it is \<^verbatim>\<open>null\<close> or
  \<^verbatim>\<open>undefined\<close>. A dataset is exportable when every such value can be made a string.
\<close>

fun quoteDoubled :: "string \<Rightarrow> string" where
  "quoteDoubled [] = []"
| "quoteDoubled (c # cs) = (if c = CHR 0x22 then CHR 0x22 # CHR 0x22 # quoteDoubled cs
                            else c # quoteDoubled cs)"

definition quotedField :: "string \<Rightarrow> string" where
  "quotedField s = CHR 0x22 # quoteDoubled s @ [CHR 0x22]"

definition cellText ::
  "('n \<Rightarrow> string) \<Rightarrow> (string \<Rightarrow> string) \<Rightarrow> (string \<times> 'n jsval) list \<Rightarrow> string \<Rightarrow> string option" where
  "cellText str native row col =
     (case memberOf row col of
        Own v \<Rightarrow> if v = JNull \<or> v = JUndefined then None else Some (jsString str v)
      | Inherited name \<Rightarrow> Some (native name)
      | Absent \<Rightarrow> None)"

definition valueField ::
  "('n \<Rightarrow> string) \<Rightarrow> (string \<Rightarrow> string) \<Rightarrow> (string \<times> 'n jsval) list \<Rightarrow> string \<Rightarrow> string" where
  "valueField str native row col =
     (case cellText str native row col of None \<Rightarrow> [] | Some t \<Rightarrow> quotedField t)"

definition columnsOf :: "(string \<times> 'n jsval) list list \<Rightarrow> string list" where
  "columnsOf rows = objectKeys (hd rows)"

definition convertible :: "(string \<times> 'n jsval) list \<Rightarrow> string \<Rightarrow> bool" where
  "convertible row col = (case memberOf row col of Own v \<Rightarrow> stringifies v | m \<Rightarrow> True)"

definition exportable :: "(string \<times> 'n jsval) list list \<Rightarrow> bool" where
  "exportable rows = list_all (\<lambda>row. list_all (convertible row) (columnsOf rows)) rows"

definition csvRecords ::
  "('n \<Rightarrow> string) \<Rightarrow> (string \<Rightarrow> string) \<Rightarrow> (string \<times> 'n jsval) list list \<Rightarrow> string list" where
  "csvRecords str native rows =
     joinComma (map quotedField (columnsOf rows))
     # map (\<lambda>row. joinComma (map (valueField str native row) (columnsOf rows))) rows"

text \<open>No line feed in the text of a field, if it has one.\<close>

definition singleLine :: "string option \<Rightarrow> bool" where
  "singleLine field = (case field of None \<Rightarrow> True | Some t \<Rightarrow> CHR 0x0A \<notin> set t)"

definition terminated :: "string \<Rightarrow> string" where
  "terminated record = record @ [CHR 0x0A]"

text \<open>
  The names of the own named properties of an object or array.
\<close>

fun namedKeys :: "'n jsval \<Rightarrow> string list" where
  "namedKeys (JObj ps) = map fst ps"
| "namedKeys (JArr xs ps) = map fst ps"
| "namedKeys v = []"

text \<open>The known keys of the two sub-records of the draft.\<close>

definition preferenceKeys :: "string list" where
  "preferenceKeys =
     [''employment_type'', ''work_mode'', ''preferred_roles'', ''preferred_industries'',
      ''expected_salary'', ''willing_to_relocate'', ''notice_period'', ''availability_date'',
      ''preferred_locations'']"

definition linkKeys :: "string list" where
  "linkKeys = [''linkedin'', ''github'', ''portfolio'', ''resume_link'', ''twitter'', ''leetcode'']"

text \<open>
  The shape invariants of a draft: the five sub-collections are sequences; \<^verbatim>\<open>preferences\<close>
  is an object whose two tag sets are sequences; \<^verbatim>\<open>links\<close> is an object; the projects are
  held in a plain array, and the technology tags of every project that can carry
  properties are a sequence.
\<close>

definition projectShaped :: "'n jsval \<Rightarrow> bool" where
  "projectShaped proj \<longleftrightarrow>
     proj \<noteq> JNull \<and> proj \<noteq> JUndefined
     \<and> (if isObjectLike proj then isArray (propOf proj ''tech_stack'') else True)"

definition shaped :: "'n draft \<Rightarrow> bool" where
  "shaped pd \<longleftrightarrow>
     isArray (getOwn pd ''education'') \<and> isArray (getOwn pd ''skills'')
     \<and> isArray (getOwn pd ''experience'') \<and> isArray (getOwn pd ''projects'')
     \<and> isArray (getOwn pd ''certifications'')
     \<and> isObjectLike (getOwn pd ''preferences'')
     \<and> isArray (propOf (getOwn pd ''preferences'') ''employment_type'')
     \<and> isArray (propOf (getOwn pd ''preferences'') ''work_mode'')
     \<and> isObjectLike (getOwn pd ''links'')"

definition sanitized :: "'n draft \<Rightarrow> bool" where
  "sanitized pd \<longleftrightarrow>
     shaped pd
     \<and> (case getOwn pd ''projects'' of
          JArr projects ps \<Rightarrow> ps = [] \<and> list_all projectShaped projects
        | v \<Rightarrow> False)"

text \<open>
  The sequence held by a sub-collection of the draft, and whether the draft holds one.
\<close>

definition entries :: "collection \<Rightarrow> 'n wizard \<Rightarrow> 'n jsval list" where
  "entries c st = (case getOwn (profileData st) (collectionKey c) of JArr xs ps \<Rightarrow> xs | v \<Rightarrow> [])"

definition isSequence :: "collection \<Rightarrow> 'n wizard \<Rightarrow> bool" where
  "isSequence c st = isArray (getOwn (profileData st) (collectionKey c))"

text \<open>
  \<open>ys\<close> is \<open>xs\<close> with exactly one record \<open>e\<close> appended, every prior element unchanged;
  \<open>ys\<close> is \<open>xs\<close> with index \<open>i\<close> replaced by \<open>e\<close>, the length and all other indices
  unchanged; \<open>ys\<close> is \<open>xs\<close> with exactly element \<open>i\<close> removed, the elements before it
  unchanged and every later element one position down.
\<close>

definition appended :: "'a \<Rightarrow> 'a list \<Rightarrow> 'a list \<Rightarrow> bool" where
  "appended e xs ys \<longleftrightarrow>
     length ys = length xs + 1 \<and> ys ! length xs = e
     \<and> list_all (\<lambda>j. ys ! j = xs ! j) [0..<length xs]"

definition replacedAt :: "nat \<Rightarrow> 'a \<Rightarrow> 'a list \<Rightarrow> 'a list \<Rightarrow> bool" where
  "replacedAt i e xs ys \<longleftrightarrow>
     length ys = length xs \<and> ys ! i = e
     \<and> list_all (\<lambda>j. j = i \<or> ys ! j = xs ! j) [0..<length xs]"

definition removedAt :: "nat \<Rightarrow> 'a list \<Rightarrow> 'a list \<Rightarrow> bool" where
  "removedAt i xs ys \<longleftrightarrow>
     length ys + 1 = length xs
     \<and> list_all (\<lambda>j. ys ! j = xs ! j) [0..<i]
     \<and> list_all (\<lambda>j. ys ! j = xs ! (j + 1)) [i..<length ys]"

text \<open>
  A save is rejected when the form is a project form whose technology tags come out
  empty; every other submitted form is accepted.
\<close>

fun accepted :: "editorForm \<Rightarrow> bool" where
  "accepted (ProjectForm f) = (splitTags (proj_tech_stack f) \<noteq> [])"
| "accepted form = True"

text \<open>
  The cleanup that the specification names, field by field. The pieces of a delimited
  text are the text before the first delimiter and, if there is one, the pieces of the
  text after it; the tag list of an input is its pieces between commas, trimmed, without
  the empty ones. An optional field is \<^verbatim>\<open>null\<close> when its control is absent or holds nothing
  but white space, and the trimmed value otherwise. \<open>normalized\<close> is the record of a
  submitted form: the year and the grade of an education entry parsed; its level, board
  and school, the proficiency of a skill and the state of the check box of an experience
  as entered; every other required field trimmed; every optional field as just said.
\<close>

function pieces :: "char \<Rightarrow> string \<Rightarrow> string list" where
  "pieces sep s =
     takeWhile (\<lambda>c. c \<noteq> sep) s
     # (case dropWhile (\<lambda>c. c \<noteq> sep) s of [] \<Rightarrow> [] | c # rest \<Rightarrow> pieces sep rest)"
  by pat_completeness auto

termination
proof (relation "measure (\<lambda>(sep, s). length s)")
  show "wf (measure (\<lambda>(sep, s). length s))"
    by simp
next
  fix sep :: char and s :: string and c rest
  assume "dropWhile (\<lambda>c. c \<noteq> sep) s = c # rest"
  then have "length (dropWhile (\<lambda>c. c \<noteq> sep) s) = Suc (length rest)"
    by simp
  moreover have "length (dropWhile (\<lambda>c. c \<noteq> sep) s) \<le> length s"
    by (rule length_dropWhile_le)
  ultimately show "((sep, rest), (sep, s)) \<in> measure (\<lambda>(sep, s). length s)"
    by simp
qed

declare pieces.simps [simp del]

definition tagList :: "string \<Rightarrow> string list" where
  "tagList input = filter (\<lambda>tag. tag \<noteq> []) (map trim (pieces CHR '','' input))"

definition emptyToNull :: "string option \<Rightarrow> 'n jsval" where
  "emptyToNull field =
     (case field of
        None \<Rightarrow> JNull
      | Some s \<Rightarrow> if trim s = [] then JNull else JStr (trim s))"

fun normalized :: "(string \<Rightarrow> 'n) \<Rightarrow> (string \<Rightarrow> 'n) \<Rightarrow> editorForm \<Rightarrow> 'n jsval" where
  "normalized parseInt parseFloat (EducationForm f) =
     JObj [(''level'', JStr (edu_level f)),
           (''board_university'', JStr (edu_board_university f)),
           (''school_college'', JStr (edu_school_college f)),
           (''year'', JNum (parseInt (edu_year f))),
           (''percentage_cgpa'', JNum (parseFloat (edu_percentage_cgpa f))),
           (''degree'', emptyToNull (edu_degree f)),
           (''branch'', emptyToNull (edu_branch f))]"
| "normalized parseInt parseFloat (SkillForm f) =
     JObj [(''name'', JStr (trim (skill_name f))),
           (''proficiency'', JStr (skill_proficiency f)),
           (''category'', emptyToNull (skill_category f))]"
| "normalized parseInt parseFloat (ExperienceForm f) =
     JObj [(''company'', JStr (trim (exp_company f))),
           (''role'', JStr (trim (exp_role f))),
           (''start_date'', JStr (trim (exp_start_date f))),
           (''end_date'', emptyToNull (exp_end_date f)),
           (''is_current'', JBool (exp_is_current f)),
           (''description'', JStr (trim (exp_description f))),
           (''location'', emptyToNull (exp_location f))]"
| "normalized parseInt parseFloat (ProjectForm f) =
     JObj [(''title'', JStr (trim (proj_title f))),
           (''description'', JStr (trim (proj_description f))),
           (''tech_stack'', JArr (map JStr (tagList (proj_tech_stack f))) []),
           (''link'', emptyToNull (proj_link f)),
           (''github_link'', emptyToNull (proj_github_link f)),
           (''start_date'', emptyToNull (proj_start_date f)),
           (''end_date'', emptyToNull (proj_end_date f))]"
| "normalized parseInt parseFloat (CertificationForm f) =
     JObj [(''name'', JStr (trim (cert_name f))),
           (''issuer'', JStr (trim (cert_issuer f))),
           (''issue_date'', JStr (trim (cert_issue_date f))),
           (''expiry_date'', emptyToNull (cert_expiry_date f)),
           (''credential_id'', emptyToNull (cert_credential_id f)),
           (''credential_url'', emptyToNull (cert_credential_url f))]"

definition collectionKeys :: "string list" where
  "collectionKeys = [''education'', ''skills'', ''experience'', ''projects'', ''certifications'']"

section \<open>Concrete inputs\<close>

text \<open>
  The strings that V8 makes of the members inherited from \<^verbatim>\<open>Object.prototype\<close>; a query
  result of two rows, the second without the first column, which is named like an inherited
  member; a row with a value that cannot be made a string; and a row with two columns
  named like array indices, created after the first.
\<close>

definition nativeText :: "string \<Rightarrow> string" where
  "nativeText name =
     (if name = ''__proto__'' then ''[object Object]''
      else ''function '' @ (if name = ''constructor'' then ''Object'' else name)
           @ ''() { [native code] }'')"

definition sampleRows :: "(string \<times> int jsval) list list" where
  "sampleRows =
     [[(''constructor'', JStr ''a''), (''name'', JStr ''say \"hi\"''), (''count'', JNum 3)],
      [(''name'', JNull), (''count'', JNum 12)]]"

definition opaqueRows :: "(string \<times> int jsval) list list" where
  "opaqueRows = [[(''id'', JNum 1), (''owner'', JObj [(''toString'', JNum 1)])]]"

definition numberedRows :: "(string \<times> int jsval) list list" where
  "numberedRows = [[(''b'', JStr ''x''), (''10'', JNum 1), (''9'', JBool True)]]"

text \<open>
  A draft as an older version of the backend stored it (the technology tags of a project a
  comma separated string, \<^verbatim>\<open>skills\<close> a string, no \<^verbatim>\<open>preferences\<close>, \<^verbatim>\<open>links\<close> with one key),
  and the draft that \<^verbatim>\<open>sanitizeProfileData\<close> makes of it.
\<close>

definition legacyDraft :: "int draft" where
  "legacyDraft =
     [(''full_name'', JStr ''Asha''),
      (''education'', JArr [JObj [(''level'', JStr ''UG''), (''year'', JNum 2024)]] []),
      (''skills'', JStr ''HOL, SML''),
      (''projects'', JArr [JObj [(''title'', JStr ''Prover''), (''tech_stack'', JStr ''HOL, SML,'')]] []),
      (''links'', JObj [(''github'', JStr ''https://github.com/asha'')])]"

definition tidyDraft :: "int draft" where
  "tidyDraft =
     [(''full_name'', JStr ''Asha''),
      (''education'', JArr [JObj [(''level'', JStr ''UG''), (''year'', JNum 2024)]] []),
      (''skills'', JArr [] []),
      (''projects'',
       JArr [JObj [(''title'', JStr ''Prover''),
                   (''tech_stack'', JArr [JStr ''HOL'', JStr ''SML''] [])]] []),
      (''links'', JObj [(''github'', JStr ''https://github.com/asha'')]),
      (''experience'', JArr [] []),
      (''certifications'', JArr [] []),
      (''preferences'', defaultPreferences)]"

text \<open>
  The module state of the wizard script when it has been loaded (lines 5 to 43), on a page
  whose modals are closed, and a page: step 1 requires name, phone and location, the
  other steps have no required control, and the list renderers get through every list.
\<close>

definition initialProfileData :: "int draft" where
  "initialProfileData =
     [(''full_name'', JStr []), (''phone'', JStr []), (''location'', JStr []),
      (''gender'', JStr []), (''date_of_birth'', JNull),
      (''education'', JArr [] []), (''skills'', JArr [] []), (''experience'', JArr [] []),
      (''projects'', JArr [] []), (''certifications'', JArr [] []),
      (''preferences'', JObj []), (''links'', JObj []),
      (''summary'', JStr []), (''domain_expertise'', JStr []), (''languages'', JStr []),
      (''achievements'', JStr []), (''total_experience_years'', JNum 0),
      (''current_role'', JStr ''Student''), (''current_company'', JStr [])]"

definition initialWizard :: "int wizard" where
  "initialWizard =
     \<lparr>currentStep = 1, profileData = initialProfileData, editing = (\<lambda>c. - 1),
      modalHidden = (\<lambda>c. True), notifications = []\<rparr>"

definition filledPage :: "int wizardPage" where
  "filledPage =
     \<lparr>stepContent = (\<lambda>step.
        if step = 1 then Some [(Some ''Full Name *'', ''Asha Rao''), (Some ''Phone *'', ''5550100''),
                               (Some ''Location *'', ''Pune'')]
        else if 2 \<le> step \<and> step \<le> 5 then Some []
        else None),
      renders = (\<lambda>c xs. True),
      isZero = (\<lambda>n. n = 0)\<rparr>"

definition sampleEducation :: educationForm where
  "sampleEducation =
     \<lparr>edu_level = ''UG'', edu_board_university = ''SPPU'', edu_school_college = ''COEP'',
      edu_year = ''2024'', edu_percentage_cgpa = ''8'', edu_degree = Some '' BTech '',
      edu_branch = Some []\<rparr>"

definition sampleProject :: projectForm where
  "sampleProject =
     \<lparr>proj_title = '' Prover '', proj_description = ''A proof checker'',
      proj_tech_stack = ''HOL, SML,'', proj_link = None, proj_github_link = Some [],
      proj_start_date = None, proj_end_date = None\<rparr>"

definition untaggedProject :: projectForm where
  "untaggedProject = sampleProject\<lparr>proj_tech_stack := '' , ,''\<rparr>"

definition sampleExperience :: experienceForm where
  "sampleExperience =
     \<lparr>exp_company = ''Acme '', exp_role = '' Intern'', exp_start_date = ''2023-06'',
      exp_end_date = Some ''  '', exp_is_current = True, exp_description = '' Built tools. '',
      exp_location = Some '' Pune ''\<rparr>"

definition sampleCertification :: certificationForm where
  "sampleCertification =
     \<lparr>cert_name = '' Logic 101 '', cert_issuer = ''TUM'', cert_issue_date = ''2024-01'',
      cert_expiry_date = None, cert_credential_id = Some '' X-7 '', cert_credential_url = Some []\<rparr>"

definition sampleSkill :: skillForm where
  "sampleSkill = \<lparr>skill_name = '' HOL'', skill_proficiency = ''Advanced'', skill_category = None\<rparr>"

text \<open>The initial state with three skills in the draft.\<close>

definition threeSkills :: "int wizard" where
  "threeSkills =
     initialWizard\<lparr>profileData :=
       setOwn initialProfileData ''skills''
         (JArr [JObj [(''name'', JStr ''HOL'')], JObj [(''name'', JStr ''SML'')],
                JObj [(''name'', JStr ''Coq'')]] [])\<rparr>"

text \<open>
  The initial state with one project in the draft, opened for editing: the sentinel of the
  projects editor is 0 and its modal is shown.
\<close>

definition projectOpenForEdit :: "int wizard" where
  "projectOpenForEdit =
     initialWizard\<lparr>profileData :=
                     setOwn initialProfileData ''projects'' (JArr [projectEntry sampleProject] []),
                   editing := (\<lambda>c. if c = Project then 0 else - 1),
                   modalHidden := (\<lambda>c. c \<noteq> Project)\<rparr>"

text \<open>A stand-in for \<^verbatim>\<open>parseInt\<close> and \<^verbatim>\<open>parseFloat\<close> on strings of decimal digits.\<close>

definition digitsValue :: "string \<Rightarrow> int" where
  "digitsValue s = foldl (\<lambda>n c. 10 * n + int (of_char c) - 48) 0 s"

section \<open>Properties of the string operations\<close>

lemma dropWhile_fixed: "xs = [] \<or> \<not> P (hd xs) \<Longrightarrow> dropWhile P xs = xs"
  by (cases xs) auto

lemma trim_ends:
  assumes "trim s \<noteq> []"
  shows "\<not> isSpace (hd (trim s))" and "\<not> isSpace (last (trim s))"
proof -
  define a where "a = dropWhile isSpace s"
  define b where "b = dropWhile isSpace (rev a)"
  have t: "trim s = rev b"
    by (simp add: trim_def a_def b_def)
  with assms have b: "b \<noteq> []" by simp
  then have "\<not> isSpace (hd b)"
    unfolding b_def by (rule hd_dropWhile)
  then show "\<not> isSpace (last (trim s))"
    using b by (simp add: t last_rev)
  have "rev a = takeWhile isSpace (rev a) @ b"
    by (simp add: b_def)
  then have "rev (rev a) = rev (takeWhile isSpace (rev a) @ b)"
    by simp
  then have split: "a = rev b @ rev (takeWhile isSpace (rev a))"
    by simp
  with b have "a \<noteq> []" by auto
  then have "\<not> isSpace (hd a)"
    unfolding a_def by (rule hd_dropWhile)
  moreover from split b have "hd a = hd (rev b)"
    by (metis hd_append2 rev_is_Nil_conv)
  ultimately show "\<not> isSpace (hd (trim s))"
    by (simp add: t)
qed

lemma trim_idem: "trim (trim s) = trim s"
proof (cases "trim s = []")
  case True
  have "trim [] = []"
    by (simp add: trim_def)
  with True show ?thesis
    by simp
next
  case False
  then have ends: "\<not> isSpace (hd (trim s))" "\<not> isSpace (last (trim s))"
    by (rule trim_ends)+
  from ends(1) have "dropWhile isSpace (trim s) = trim s"
    by (simp add: dropWhile_fixed)
  moreover from ends(2) False have "dropWhile isSpace (rev (trim s)) = rev (trim s)"
    by (simp add: dropWhile_fixed hd_rev)
  ultimately show ?thesis
    by (simp add: trim_def [of "trim s"])
qed

lemma split_no_separator: "w \<in> set (split sep s) \<Longrightarrow> sep \<notin> set w"
proof (induction s arbitrary: w)
  case Nil
  then show ?case by simp
next
  case (Cons c cs)
  show ?case
  proof (cases "c = sep")
    case True
    with Cons show ?thesis by auto
  next
    case False
    obtain v vs where sp: "split sep cs = v # vs"
      by (cases "split sep cs") (auto, cases cs, auto split: if_splits list.splits)
    with Cons.prems False have "w = c # v \<or> w \<in> set vs" by auto
    with Cons.IH sp False show ?thesis by auto
  qed
qed

lemma set_trim: "set (trim s) \<subseteq> set s"
proof -
  have "set (trim s) \<subseteq> set (dropWhile isSpace s)"
    unfolding trim_def using set_dropWhileD [of _ isSpace "rev (dropWhile isSpace s)"] by auto
  also have "\<dots> \<subseteq> set s"
    using set_dropWhileD [of _ isSpace s] by auto
  finally show ?thesis .
qed

lemma splitTags_tag:
  assumes "t \<in> set (splitTags s)"
  shows "t \<noteq> []" and "trim t = t" and "CHR '','' \<notin> set t"
proof -
  from assms obtain w where w: "w \<in> set (split CHR '','' s)" and t: "t = trim w" and ne: "t \<noteq> []"
    by (auto simp add: splitTags_def)
  from ne show "t \<noteq> []" .
  from t show "trim t = t" by (simp add: trim_idem)
  from w have "CHR '','' \<notin> set w" by (rule split_no_separator)
  with set_trim [of w] show "CHR '','' \<notin> set t" by (auto simp add: t)
qed

text \<open>The two descriptions of splitting agree.\<close>

lemma pieces_Nil: "pieces sep [] = [[]]"
  by (simp add: pieces.simps [of sep "[]"])

lemma pieces_Cons:
  "pieces sep (c # cs) =
     (if c = sep then [] # pieces sep cs
      else (case pieces sep cs of [] \<Rightarrow> [[c]] | w # ws \<Rightarrow> (c # w) # ws))"
  by (simp add: pieces.simps [of sep "c # cs"] pieces.simps [of sep cs])

lemma split_pieces: "split sep s = pieces sep s"
  by (induction s) (simp_all add: pieces_Nil pieces_Cons)

lemma splitTags_tagList: "splitTags input = tagList input"
  by (simp add: splitTags_def tagList_def split_pieces)

section \<open>Properties of the jobs browser\<close>

lemma loadJobs_fields:
  "currentPage (loadJobs s) = currentPage s"
  "jobTypeFilter (loadJobs s) = jobTypeFilter s"
  "sourceFilter (loadJobs s) = sourceFilter s"
  "locationFilter (loadJobs s) = locationFilter s"
  "fetched (loadJobs s) = fetched s @ [jobsUrl s]"
  by (simp_all add: loadJobs_def)

lemma loadStats_fields:
  "currentPage (loadStats s) = currentPage s"
  "jobTypeFilter (loadStats s) = jobTypeFilter s"
  "sourceFilter (loadStats s) = sourceFilter s"
  "locationFilter (loadStats s) = locationFilter s"
  "fetched (loadStats s) = fetched s @ [''/api/v1/jobs/stats/count'']"
  by (simp_all add: loadStats_def)

text \<open>
  C8, as stated, fails: on page 1 \<^verbatim>\<open>previousPage\<close> returns without calling \<^verbatim>\<open>loadJobs\<close>, so
  the invocation triggers no fetch at all, not exactly one.
\<close>

theorem previousPage_on_first_page_fetches_nothing:
  "\<not> length (fetched (previousPage (initialJobs ''full_time'' [] ''Pune'')))
       = length (fetched (initialJobs ''full_time'' [] ''Pune'')) + 1"
  by (simp add: previousPage_def initialJobs_def loadJobs_fields loadStats_fields)

text \<open>
  C8, amended: the page counter, which starts at 1, never drops below 1 and never exceeds
  \<open>2\<^sup>5\<^sup>3\<close>. \<^verbatim>\<open>nextPage\<close> always triggers exactly one fetch, for the URL of the updated page with
  the filter values as they are; the updated page is the page plus one as long as the
  counter is below \<open>2\<^sup>5\<^sup>3\<close>, where the increment no longer changes the double and the same
  page is fetched again. \<^verbatim>\<open>previousPage\<close> on a page above 1 moves the counter down by one and
  triggers exactly one fetch, for the URL of the new page; on page 1 it changes nothing and
  fetches nothing. No filter value changes.
\<close>

theorem page_navigation:
  assumes "1 \<le> currentPage s" and "currentPage s \<le> maxCounter"
  shows "1 \<le> currentPage (nextPage s) \<and> currentPage (nextPage s) \<le> maxCounter
    \<and> 1 \<le> currentPage (previousPage s) \<and> currentPage (previousPage s) \<le> maxCounter
    \<and> currentPage (nextPage s) =
        (if currentPage s < maxCounter then currentPage s + 1 else maxCounter)
    \<and> fetched (nextPage s) =
        fetched s @ [jobsUrl (s\<lparr>currentPage :=
          (if currentPage s < maxCounter then currentPage s + 1 else maxCounter)\<rparr>)]
    \<and> currentPage (previousPage s) = (if currentPage s > 1 then currentPage s - 1 else 1)
    \<and> fetched (previousPage s) =
        (if currentPage s > 1 then fetched s @ [jobsUrl (s\<lparr>currentPage := currentPage s - 1\<rparr>)]
         else fetched s)
    \<and> jobTypeFilter (nextPage s) = jobTypeFilter s \<and> sourceFilter (nextPage s) = sourceFilter s
    \<and> locationFilter (nextPage s) = locationFilter s
    \<and> jobTypeFilter (previousPage s) = jobTypeFilter s
    \<and> sourceFilter (previousPage s) = sourceFilter s
    \<and> locationFilter (previousPage s) = locationFilter s"
proof -
  have up: "increment (currentPage s) =
      (if currentPage s < maxCounter then currentPage s + 1 else maxCounter)"
  proof (cases "currentPage s < maxCounter")
    case True
    with assms(1) show ?thesis
      by (simp add: increment_def maxCounter_def)
  next
    case False
    with assms(2) have "currentPage s = maxCounter"
      by simp
    then show ?thesis
      by (simp add: increment_def maxCounter_def)
  qed
  have down: "decrement (currentPage s) = currentPage s - 1"
    using assms by (simp add: decrement_def maxCounter_def)
  have nxt: "nextPage s = loadJobs (s\<lparr>currentPage :=
      (if currentPage s < maxCounter then currentPage s + 1 else maxCounter)\<rparr>)"
    by (simp only: nextPage_def up)
  have prv: "previousPage s =
      (if currentPage s > 1 then loadJobs (s\<lparr>currentPage := currentPage s - 1\<rparr>) else s)"
    by (simp only: previousPage_def down)
  from assms show ?thesis
    unfolding nxt prv by (simp add: loadJobs_fields)
qed

theorem page_navigation_witness:
  "1 \<le> currentPage (nextPage (initialJobs ''full_time'' [] ''Pune''))
   \<and> currentPage (nextPage (initialJobs ''full_time'' [] ''Pune'')) \<le> maxCounter
   \<and> fetched (nextPage (initialJobs ''full_time'' [] ''Pune'')) =
       [''/api/v1/jobs/stats/count'',
        ''/api/v1/jobs/list?page=1&limit=20&job_type=full_time&location=Pune'',
        ''/api/v1/jobs/list?page=2&limit=20&job_type=full_time&location=Pune'']
   \<and> fetched (previousPage (nextPage (initialJobs ''full_time'' [] ''Pune''))) =
       fetched (nextPage (initialJobs ''full_time'' [] ''Pune''))
       @ [''/api/v1/jobs/list?page=1&limit=20&job_type=full_time&location=Pune'']
   \<and> currentPage (previousPage (nextPage (initialJobs ''full_time'' [] ''Pune''))) = 1
   \<and> currentPage (nextPage ((initialJobs ''full_time'' [] ''Pune'')\<lparr>currentPage := maxCounter\<rparr>))
       = maxCounter"
proof -
  let ?s0 = "initialJobs ''full_time'' [] ''Pune''"
  have first: "1 \<le> currentPage ?s0" "currentPage ?s0 \<le> maxCounter"
    by (simp_all add: initialJobs_def loadJobs_fields loadStats_fields maxCounter_def)
  have fetched0: "fetched ?s0 = [''/api/v1/jobs/stats/count'',
      ''/api/v1/jobs/list?page=1&limit=20&job_type=full_time&location=Pune'']"
    by (simp add: initialJobs_def loadJobs_fields loadStats_fields jobsUrl_def loadStats_def
        showInt_def limit_def digitChar_def)
  have url2: "jobsUrl (?s0\<lparr>currentPage := 1 + 1\<rparr>)
    = ''/api/v1/jobs/list?page=2&limit=20&job_type=full_time&location=Pune''"
    by (simp add: jobsUrl_def initialJobs_def loadJobs_def loadStats_def showInt_def limit_def
        digitChar_def)
  have page0: "currentPage ?s0 = 1"
    by (simp add: initialJobs_def loadJobs_fields loadStats_fields)
  have lt: "currentPage ?s0 < maxCounter"
    by (simp add: page0 maxCounter_def)
  note n0 = page_navigation [OF first]
  have page: "currentPage (nextPage ?s0) = 2"
    using n0 [THEN conjunct2, THEN conjunct2, THEN conjunct2, THEN conjunct2, THEN conjunct1]
    by (simp add: page0 maxCounter_def)
  have fetched1: "fetched (nextPage ?s0) = [''/api/v1/jobs/stats/count'',
      ''/api/v1/jobs/list?page=1&limit=20&job_type=full_time&location=Pune'',
      ''/api/v1/jobs/list?page=2&limit=20&job_type=full_time&location=Pune'']"
    using n0 [THEN conjunct2, THEN conjunct2, THEN conjunct2, THEN conjunct2, THEN conjunct2,
        THEN conjunct1] url2
    by (simp add: page0 fetched0 maxCounter_def)
  have second: "1 \<le> currentPage (nextPage ?s0)" "currentPage (nextPage ?s0) \<le> maxCounter"
    by (simp_all add: page maxCounter_def)
  have url1: "jobsUrl ((nextPage ?s0)\<lparr>currentPage := 2 - 1\<rparr>)
    = ''/api/v1/jobs/list?page=1&limit=20&job_type=full_time&location=Pune''"
    by (simp add: jobsUrl_def nextPage_def initialJobs_def loadJobs_def loadStats_def showInt_def
        limit_def digitChar_def)
  note n1 = page_navigation [OF second]
  have previous: "fetched (previousPage (nextPage ?s0)) = fetched (nextPage ?s0)
      @ [''/api/v1/jobs/list?page=1&limit=20&job_type=full_time&location=Pune'']"
    "currentPage (previousPage (nextPage ?s0)) = 1"
    using n1 url1 by (simp_all add: page)
  let ?top = "?s0\<lparr>currentPage := maxCounter\<rparr>"
  have third: "1 \<le> currentPage ?top" "currentPage ?top \<le> maxCounter"
    by (simp_all add: maxCounter_def)
  have top: "currentPage (nextPage ?top) = maxCounter"
    using page_navigation [OF third, THEN conjunct2, THEN conjunct2, THEN conjunct2,
        THEN conjunct2, THEN conjunct1]
    by simp
  from second fetched1 previous top show ?thesis
    by (intro conjI)
qed

section \<open>Properties of the dashboard\<close>

subsection \<open>Chart type\<close>

lemma toLowerCase_polarArea: "toLowerCase ''polarArea'' = ''polararea''"
  by (simp add: toLowerCase_def lowerChar_def)

lemma toLowerCase_lower_names:
  "toLowerCase ''bar'' = ''bar''" "toLowerCase ''line'' = ''line''" "toLowerCase ''pie'' = ''pie''"
  "toLowerCase ''doughnut'' = ''doughnut''" "toLowerCase ''radar'' = ''radar''"
  by (simp_all add: toLowerCase_def lowerChar_def)

text \<open>
  Whatever chart \<^verbatim>\<open>renderChart\<close> creates has the requested type if the lower-cased request
  is in \<^verbatim>\<open>validChartTypes\<close>, and type \<^verbatim>\<open>bar\<close> otherwise.
\<close>

lemma renderChart_cfg_type:
  assumes "currentChart (stateOf (renderChart pg ty cd st)) = Some cfg"
  shows "cfg_type cfg = (if toLowerCase ty \<in> set validChartTypes then ty else ''bar'')"
  using assms
  by (auto simp add: renderChart_def Let_def split: if_splits sum.splits prod.splits)

lemma renderChart_lower_case_types:
  assumes "ty \<in> set [''bar'', ''line'', ''pie'', ''doughnut'', ''radar'']"
    and "currentChart (stateOf (renderChart pg ty cd st)) = Some cfg"
  shows "cfg_type cfg = ty"
  using renderChart_cfg_type [OF assms(2)] assms(1)
  by (auto simp add: toLowerCase_lower_names validChartTypes_def)

lemma renderChart_unknown_type:
  assumes "toLowerCase ty \<notin> set validChartTypes"
    and "currentChart (stateOf (renderChart pg ty cd st)) = Some cfg"
  shows "cfg_type cfg = ''bar''"
  using renderChart_cfg_type [OF assms(2)] assms(1) by simp

lemma renderChart_polarArea:
  assumes "currentChart (stateOf (renderChart pg ''polarArea'' cd st)) = Some cfg"
  shows "cfg_type cfg = ''bar''"
  using renderChart_cfg_type [OF assms]
  by (simp add: toLowerCase_polarArea validChartTypes_def)

lemma renderChart_table:
  "toLowerCase ty = ''table'' \<Longrightarrow> renderChart pg ty cd st = Normal (st\<lparr>currentChart := None\<rparr>)"
  by (simp add: renderChart_def)

text \<open>
  For a table result \<^verbatim>\<open>displayResults\<close> hides the chart section and does not touch
  \<^verbatim>\<open>currentChart\<close>: no chart is created.
\<close>

lemma displayResults_table:
  assumes "toLowerCase (chart_type data) = ''table''" and "hasChartSection pg"
  shows "chartSectionHidden (stateOf (displayResults pg data st))
    \<and> currentChart (stateOf (displayResults pg data st)) = currentChart st"
  using assms
  by (cases "tableRenders pg (raw_data data)")
    (simp_all add: displayResults_def renderTable_def Let_def)

text \<open>
  C1, where the script departs from it. \<^verbatim>\<open>polarArea\<close> is one of the six entries of
  \<^verbatim>\<open>validChartTypes\<close>, but the request is lower-cased before it is looked up there, and
  \<^verbatim>\<open>polararea\<close> is not an entry: a \<^verbatim>\<open>polarArea\<close> result is drawn as a \<^verbatim>\<open>bar\<close> chart.
\<close>

theorem displayResults_polarArea_draws_bar:
  "displayResults
     \<lparr>hasChartSection = True, hasExportBtn = True, chartLib = (\<lambda>config. True),
      tableRenders = (\<lambda>rows. True), numTruthy = (\<lambda>n. n \<noteq> 0)\<rparr>
     \<lparr>chart_type = ''polarArea'',
      chart_data = JObj [(''labels'', JArr [JStr ''A'', JStr ''B''] []),
                         (''data'', JArr [JNum (3::int), JNum 7] [])],
      raw_data = JArr [JObj [(''name'', JStr ''A''), (''count'', JNum 3)],
                       JObj [(''name'', JStr ''B''), (''count'', JNum 7)]] []\<rparr>
     \<lparr>currentChart = None, loadingStateHidden = False, errorStateHidden = True,
      resultsSectionHidden = True, chartSectionHidden = True, exportBtnHidden = True,
      tableData = None\<rparr>
   = Normal
     \<lparr>currentChart =
        Some \<lparr>cfg_type = ''bar'', cfg_labels = JArr [JStr ''A'', JStr ''B''] [],
              dataset_label = JStr ''Value'', dataset_data = JArr [JNum 3, JNum 7] []\<rparr>,
      loadingStateHidden = True, errorStateHidden = True, resultsSectionHidden = False,
      chartSectionHidden = False, exportBtnHidden = False,
      tableData = Some (JArr [JObj [(''name'', JStr ''A''), (''count'', JNum 3)],
                               JObj [(''name'', JStr ''B''), (''count'', JNum 7)]] [])\<rparr>"
  by (simp add: displayResults_def renderChart_def renderTable_def chartSeries_def propOf_def
      getOwn_def toLowerCase_polarArea validChartTypes_def)

subsection \<open>CSV export\<close>

lemma doubleQuotes_quoteDoubled: "doubleQuotes s = quoteDoubled s"
  by (induction s) (simp_all add: doubleQuotes_def)

lemma csvHeaderField_quoted: "csvHeaderField col = quotedField col"
  by (simp add: csvHeaderField_def quotedField_def doubleQuotes_quoteDoubled)

lemma mapThrowing_all:
  assumes "\<And>x. f x = (if ok x then Inr (g x) else Inl TypeError)"
  shows "mapThrowing f xs = (if list_all ok xs then Inr (map g xs) else Inl TypeError)"
  by (induction xs) (simp_all add: assms)

lemma appendRows_all:
  assumes "\<And>row. line row = (if ok row then Inr (g row) else Inl TypeError)"
  shows "appendRows line csv rows =
     (if list_all ok rows then Inr (csv @ concat (map g rows)) else Inl TypeError)"
  by (induction rows arbitrary: csv) (simp_all add: assms)

lemma lineCount_simps:
  "lineCount [] = 0"
  "lineCount (c # s) = (if c = CHR 0x0A then Suc (lineCount s) else lineCount s)"
  by (simp_all add: lineCount_def)

lemma lineCount_append: "lineCount (a @ b) = lineCount a + lineCount b"
  by (induction a) (simp_all add: lineCount_simps)

lemma lineCount_free: "CHR 0x0A \<notin> set s \<Longrightarrow> lineCount s = 0"
  by (induction s) (auto simp add: lineCount_simps)

lemma quoteDoubled_set: "set (quoteDoubled s) = set s"
  by (induction s) auto

lemma lineCount_quotedField: "CHR 0x0A \<notin> set s \<Longrightarrow> lineCount (quotedField s) = 0"
  by (rule lineCount_free) (simp add: quotedField_def quoteDoubled_set)

lemma lineCount_valueField:
  "singleLine (cellText str native row col) \<Longrightarrow> lineCount (valueField str native row col) = 0"
  by (cases "cellText str native row col")
    (simp_all add: valueField_def singleLine_def lineCount_simps lineCount_quotedField)

lemma lineCount_joinComma:
  "(\<And>x. x \<in> set xs \<Longrightarrow> lineCount x = 0) \<Longrightarrow> lineCount (joinComma xs) = 0"
  by (induction xs rule: joinComma.induct) (simp_all add: lineCount_append lineCount_simps)

lemma lineCount_terminated: "lineCount (terminated r) = lineCount r + 1"
  by (simp add: terminated_def lineCount_append lineCount_simps)

lemma lineCount_concat_terminated:
  "(\<And>r. r \<in> set rs \<Longrightarrow> lineCount r = 0) \<Longrightarrow> lineCount (concat (map terminated rs)) = length rs"
  by (induction rs) (simp_all add: lineCount_append lineCount_terminated lineCount_simps)

lemma length_csvRecords: "length (csvRecords str native rows) = length rows + 1"
  by (simp add: csvRecords_def)

text \<open>
  C7, as stated, fails. A value that contains a line feed is kept as it is inside its
  quotes, so the export of one row has three lines, not two. And a dataset with a value
  that cannot be made a string (an object with a property named \<^verbatim>\<open>toString\<close>) has no export
  at all: the handler ends with a \<^verbatim>\<open>TypeError\<close>.
\<close>

theorem exportToCSV_embedded_line_feed:
  "exportToCSV showInt nativeText [[(''note'', JStr [CHR ''a'', CHR 0x0A, CHR ''b''])]]
     = Inr (Some ''\"note\"\<newline>\"a\<newline>b\"\<newline>'')
   \<and> \<not> lineCount ''\"note\"\<newline>\"a\<newline>b\"\<newline>'' = 1 + 1
   \<and> exportToCSV showInt nativeText opaqueRows = Inl TypeError"
  by (simp add: exportToCSV_def csvRow_def csvValue_def csvHeaderField_def doubleQuotes_def
      memberOf_def objectPrototypeKeys_def objectKeys_def arrayIndex_def isDigit_def
      List.map_filter_simps lineCount_simps opaqueRows_def)

text \<open>
  C7, amended: for a non-empty dataset of R rows in which every value can be made a string
  the export is R + 1 records, each ended by a line feed: the header naming the columns of
  the first row, then one record per row in order, with every field quoted, embedded
  double quotes doubled, and \<^verbatim>\<open>null\<close> and \<^verbatim>\<open>undefined\<close> empty; the value of a row in a column
  is \<^verbatim>\<open>row[col]\<close>, which for a row without that property is the inherited member of that
  name, if there is one. The export has exactly R + 1 lines when no column name and no
  value, as a string, contains a line feed. When some value cannot be made a string the
  handler throws and exports nothing.
\<close>

theorem exportToCSV_lines:
  assumes "rows \<noteq> []"
  shows "exportToCSV str native rows =
      (if exportable rows then Inr (Some (concat (map terminated (csvRecords str native rows))))
       else Inl TypeError)
    \<and> length (csvRecords str native rows) = length rows + 1
    \<and> ((\<forall>col \<in> set (columnsOf rows). CHR 0x0A \<notin> set col)
        \<and> (\<forall>row \<in> set rows. \<forall>col \<in> set (columnsOf rows).
              singleLine (cellText str native row col))
       \<longrightarrow> lineCount (concat (map terminated (csvRecords str native rows))) = length rows + 1)"
proof (intro conjI impI)
  from assms obtain first rest where rows: "rows = first # rest"
    by (cases rows) auto
  let ?cols = "objectKeys first"
  let ?header = "joinComma (map csvHeaderField ?cols) @ [CHR 0x0A]"
  have field: "csvValue str native row col =
     (if convertible row col then Inr (valueField str native row col) else Inl TypeError)"
    for row col
    by (simp add: csvValue_def valueField_def cellText_def convertible_def quotedField_def
        doubleQuotes_quoteDoubled split: member.splits)
  have line: "csvRow str native cols row =
     (if list_all (convertible row) cols
      then Inr (terminated (joinComma (map (valueField str native row) cols)))
      else Inl TypeError)" for cols row
    by (simp add: csvRow_def terminated_def field
        mapThrowing_all [of "csvValue str native row" "convertible row" "valueField str native row"])
  have body: "exportToCSV str native rows =
     (case appendRows (csvRow str native ?cols) ?header rows of
        Inl e \<Rightarrow> Inl e
      | Inr csv \<Rightarrow> Inr (Some csv))"
    unfolding rows by (simp only: exportToCSV_def Let_def list.case)
  have lines: "appendRows (csvRow str native ?cols) ?header rows =
     (if list_all (\<lambda>row. list_all (convertible row) ?cols) rows
      then Inr (?header @ concat (map (\<lambda>row.
             terminated (joinComma (map (valueField str native row) ?cols))) rows))
      else Inl TypeError)"
    by (rule appendRows_all) (rule line)
  have header: "csvHeaderField = quotedField"
    by (rule ext) (rule csvHeaderField_quoted)
  have records: "concat (map terminated (csvRecords str native rows)) =
     ?header @ concat (map (\<lambda>row.
       terminated (joinComma (map (valueField str native row) ?cols))) rows)"
    by (simp add: csvRecords_def columnsOf_def rows header terminated_def comp_def)
  have all: "exportable rows = list_all (\<lambda>row. list_all (convertible row) ?cols) rows"
    by (simp add: exportable_def columnsOf_def rows)
  show "exportToCSV str native rows =
      (if exportable rows then Inr (Some (concat (map terminated (csvRecords str native rows))))
       else Inl TypeError)"
    unfolding body lines records all by simp
  show "length (csvRecords str native rows) = length rows + 1"
    by (rule length_csvRecords)
next
  assume free: "(\<forall>col \<in> set (columnsOf rows). CHR 0x0A \<notin> set col)
        \<and> (\<forall>row \<in> set rows. \<forall>col \<in> set (columnsOf rows).
              singleLine (cellText str native row col))"
  have "lineCount r = 0" if "r \<in> set (csvRecords str native rows)" for r
  proof -
    from that consider
      (header) "r = joinComma (map quotedField (columnsOf rows))"
      | (row) row where "row \<in> set rows"
          "r = joinComma (map (valueField str native row) (columnsOf rows))"
      by (auto simp add: csvRecords_def)
    then show ?thesis
    proof cases
      case header
      show ?thesis
        unfolding header using free
        by (intro lineCount_joinComma) (auto simp add: lineCount_quotedField)
    next
      case row
      show ?thesis
        unfolding row(2) using free row(1)
        by (intro lineCount_joinComma) (auto simp add: lineCount_valueField)
    qed
  qed
  then have "lineCount (concat (map terminated (csvRecords str native rows)))
      = length (csvRecords str native rows)"
    by (rule lineCount_concat_terminated)
  then show "lineCount (concat (map terminated (csvRecords str native rows))) = length rows + 1"
    by (simp add: length_csvRecords)
qed

theorem exportToCSV_lines_witness:
  "exportToCSV showInt nativeText sampleRows
   = Inr (Some (''\"constructor\",\"name\",\"count\"\<newline>''
        @ ''\"a\",\"say \"\"hi\"\"\",\"3\"\<newline>''
        @ ''\"function Object() { [native code] }\",,\"12\"\<newline>''))
   \<and> lineCount (''\"constructor\",\"name\",\"count\"\<newline>''
        @ ''\"a\",\"say \"\"hi\"\"\",\"3\"\<newline>''
        @ ''\"function Object() { [native code] }\",,\"12\"\<newline>'') = 3
   \<and> exportToCSV showInt nativeText opaqueRows = Inl TypeError
   \<and> exportToCSV showInt nativeText numberedRows
       = Inr (Some ''\"9\",\"10\",\"b\"\<newline>\"true\",\"1\",\"x\"\<newline>'')"
proof -
  have ne: "sampleRows \<noteq> []" "opaqueRows \<noteq> []" "numberedRows \<noteq> []"
    by (simp_all add: sampleRows_def opaqueRows_def numberedRows_def)
  have keys: "arrayIndex ''constructor'' = None" "arrayIndex ''name'' = None"
    "arrayIndex ''count'' = None" "arrayIndex ''id'' = None" "arrayIndex ''owner'' = None"
    by (simp_all add: arrayIndex_def isDigit_def)
  have cols: "columnsOf sampleRows = [''constructor'', ''name'', ''count'']"
    by (simp add: columnsOf_def sampleRows_def objectKeys_def keys List.map_filter_simps)
  have cols': "columnsOf opaqueRows = [''id'', ''owner'']"
    by (simp add: columnsOf_def opaqueRows_def objectKeys_def keys List.map_filter_simps)
  have cells: "map (\<lambda>row. map (cellText showInt nativeText row) (columnsOf sampleRows)) sampleRows
    = [[Some ''a'', Some ''say \"hi\"'', Some ''3''],
       [Some ''function Object() { [native code] }'', None, Some ''12'']]"
    unfolding cols
    by (simp add: sampleRows_def cellText_def memberOf_def objectPrototypeKeys_def nativeText_def
        showInt_def digitChar_def)
  have ok: "exportable sampleRows"
    unfolding exportable_def cols
    by (simp add: sampleRows_def convertible_def memberOf_def objectPrototypeKeys_def)
  have opaque: "\<not> exportable opaqueRows"
    unfolding exportable_def cols'
    by (simp add: opaqueRows_def convertible_def memberOf_def)
  have recs: "concat (map terminated (csvRecords showInt nativeText sampleRows))
    = ''\"constructor\",\"name\",\"count\"\<newline>''
        @ ''\"a\",\"say \"\"hi\"\"\",\"3\"\<newline>''
        @ ''\"function Object() { [native code] }\",,\"12\"\<newline>''"
    unfolding csvRecords_def cols
    by (simp add: sampleRows_def terminated_def quotedField_def valueField_def cellText_def
        memberOf_def objectPrototypeKeys_def nativeText_def showInt_def digitChar_def)
  have free: "(\<forall>col \<in> set (columnsOf sampleRows). CHR 0x0A \<notin> set col)
        \<and> (\<forall>row \<in> set sampleRows. \<forall>col \<in> set (columnsOf sampleRows).
              singleLine (cellText showInt nativeText row col))"
    unfolding cols
    by (simp add: sampleRows_def singleLine_def cellText_def memberOf_def objectPrototypeKeys_def
        nativeText_def showInt_def digitChar_def)
  note sample = exportToCSV_lines [OF ne(1), of showInt nativeText]
  have export: "exportToCSV showInt nativeText sampleRows
      = Inr (Some (concat (map terminated (csvRecords showInt nativeText sampleRows))))"
    using sample [THEN conjunct1] ok by simp
  have lines: "lineCount (concat (map terminated (csvRecords showInt nativeText sampleRows)))
      = length sampleRows + 1"
    using sample [THEN conjunct2, THEN conjunct2] free by simp
  have thrown: "exportToCSV showInt nativeText opaqueRows = Inl TypeError"
    using exportToCSV_lines [OF ne(2), of showInt nativeText, THEN conjunct1] opaque by simp
  have three: "length sampleRows + 1 = 3"
    by (simp add: sampleRows_def)
  have indices: "arrayIndex ''b'' = None" "arrayIndex ''10'' = Some 10" "arrayIndex ''9'' = Some 9"
    by (simp_all add: arrayIndex_def isDigit_def digitsNat_def)
  have cols'': "columnsOf numberedRows = [''9'', ''10'', ''b'']"
    by (simp add: columnsOf_def numberedRows_def objectKeys_def indices List.map_filter_simps
        digitChar_def)
  have numbered: "exportable numberedRows"
    unfolding exportable_def cols''
    by (simp add: numberedRows_def convertible_def memberOf_def)
  have recs'': "concat (map terminated (csvRecords showInt nativeText numberedRows))
    = ''\"9\",\"10\",\"b\"\<newline>\"true\",\"1\",\"x\"\<newline>''"
    unfolding csvRecords_def cols''
    by (simp add: numberedRows_def terminated_def quotedField_def valueField_def cellText_def
        memberOf_def showInt_def digitChar_def)
  have ordered: "exportToCSV showInt nativeText numberedRows
      = Inr (Some (concat (map terminated (csvRecords showInt nativeText numberedRows))))"
    using exportToCSV_lines [OF ne(3), of showInt nativeText, THEN conjunct1] numbered by simp
  from export lines thrown ordered show ?thesis
    unfolding recs recs'' three by (intro conjI)
qed

section \<open>Properties of the draft sanitizer\<close>

lemma map_of_setOwn: "map_of (setOwn ps k v) = (map_of ps)(k \<mapsto> v)"
  by (induction ps) (auto simp add: fun_eq_iff)

lemma getOwn_setOwn: "getOwn (setOwn ps k v) k' = (if k' = k then v else getOwn ps k')"
  by (simp add: getOwn_def map_of_setOwn)

lemma setOwn_same: "map_of ps k = Some v \<Longrightarrow> setOwn ps k v = ps"
  by (induction ps) auto

lemma setOwn_getOwn: "getOwn ps k \<noteq> JUndefined \<Longrightarrow> setOwn ps k (getOwn ps k) = ps"
  by (rule setOwn_same) (auto simp add: getOwn_def split: option.splits)

lemma setOwn_setOwn: "setOwn (setOwn ps k v) k w = setOwn ps k w"
  by (induction ps) auto

lemma keys_setOwn: "set (map fst (setOwn ps k v)) = insert k (set (map fst ps))"
  by (induction ps) auto

lemma isObjectLike_defined: "isObjectLike v \<Longrightarrow> v \<noteq> JUndefined"
  by (cases v) auto

lemma propOf_setNamed:
  "isObjectLike v \<Longrightarrow> propOf (setNamed v k w) k' = (if k' = k then w else propOf v k')"
  by (cases v) (simp_all add: propOf_def getOwn_setOwn)

lemma isObjectLike_setNamed: "isObjectLike (setNamed v k w) = isObjectLike v"
  by (cases v) simp_all

lemma namedKeys_setNamed:
  "isObjectLike v \<Longrightarrow> set (namedKeys (setNamed v k w)) = insert k (set (namedKeys v))"
  by (cases v) (simp_all add: keys_setOwn del: set_map)

lemma isObjectLike_ensureArrayIn: "isObjectLike (ensureArrayIn k v) = isObjectLike v"
  by (simp add: ensureArrayIn_def isObjectLike_setNamed)

lemma propOf_ensureArrayIn:
  "isObjectLike v \<Longrightarrow>
   propOf (ensureArrayIn k v) k' = (if k' = k \<and> \<not> isArray (propOf v k) then JArr [] [] else propOf v k')"
  by (simp add: ensureArrayIn_def propOf_setNamed)

lemma getOwn_ensureArray:
  "getOwn (ensureArray k pd) k' = (if k' = k \<and> \<not> isArray (getOwn pd k) then JArr [] [] else getOwn pd k')"
  by (simp add: ensureArray_def getOwn_setOwn)

lemma getOwn_sanitizePreferences:
  "getOwn (sanitizePreferences pd) k =
     (if k = ''preferences'' then
        (if isObjectLike (getOwn pd ''preferences'')
         then ensureArrayIn ''work_mode'' (ensureArrayIn ''employment_type'' (getOwn pd ''preferences''))
         else defaultPreferences)
      else getOwn pd k)"
  by (simp add: sanitizePreferences_def getOwn_setOwn Let_def)

lemma getOwn_sanitizeLinks:
  "getOwn (sanitizeLinks pd) k =
     (if k = ''links'' \<and> \<not> isObjectLike (getOwn pd ''links'') then defaultLinks else getOwn pd k)"
  by (simp add: sanitizeLinks_def getOwn_setOwn)

lemma getOwn_sanitizeShapes:
  "getOwn (sanitizeShapes pd) k =
     (if k = ''links'' then
        (if isObjectLike (getOwn pd ''links'') then getOwn pd ''links'' else defaultLinks)
      else if k = ''preferences'' then
        (if isObjectLike (getOwn pd ''preferences'')
         then ensureArrayIn ''work_mode'' (ensureArrayIn ''employment_type'' (getOwn pd ''preferences''))
         else defaultPreferences)
      else if k \<in> set collectionKeys then
        (if isArray (getOwn pd k) then getOwn pd k else JArr [] [])
      else getOwn pd k)"
  by (simp add: sanitizeShapes_def Let_def getOwn_sanitizeLinks getOwn_sanitizePreferences
      getOwn_ensureArray collectionKeys_def)

lemma defaults_shaped:
  "isObjectLike (defaultPreferences :: 'n jsval)"
  "isArray (propOf (defaultPreferences :: 'n jsval) ''employment_type'')"
  "isArray (propOf (defaultPreferences :: 'n jsval) ''work_mode'')"
  "isObjectLike (defaultLinks :: 'n jsval)"
  by (simp_all add: defaultPreferences_def defaultLinks_def propOf_def getOwn_def)

lemma shaped_sanitizeShapes: "shaped (sanitizeShapes pd)"
  by (simp add: shaped_def getOwn_sanitizeShapes collectionKeys_def defaults_shaped
      isObjectLike_ensureArrayIn propOf_ensureArrayIn)

lemma ensureArrayIn_id: "isArray (propOf v k) \<Longrightarrow> ensureArrayIn k v = v"
  by (simp add: ensureArrayIn_def)

lemma sanitizeShapes_id:
  assumes "shaped pd"
  shows "sanitizeShapes pd = pd"
proof -
  from assms have arrays: "isArray (getOwn pd ''education'')" "isArray (getOwn pd ''skills'')"
    "isArray (getOwn pd ''experience'')" "isArray (getOwn pd ''projects'')"
    "isArray (getOwn pd ''certifications'')"
    and prefs: "isObjectLike (getOwn pd ''preferences'')"
      "isArray (propOf (getOwn pd ''preferences'') ''employment_type'')"
      "isArray (propOf (getOwn pd ''preferences'') ''work_mode'')"
    and links: "isObjectLike (getOwn pd ''links'')"
    by (simp_all add: shaped_def)
  have "sanitizePreferences pd = pd"
    using prefs by (simp add: sanitizePreferences_def ensureArrayIn_id setOwn_getOwn isObjectLike_defined)
  moreover have "sanitizeLinks pd = pd"
    using links by (simp add: sanitizeLinks_def)
  ultimately show ?thesis
    using arrays by (simp add: sanitizeShapes_def ensureArray_def)
qed

lemma shaped_setOwn_projects: "shaped pd \<Longrightarrow> shaped (setOwn pd ''projects'' (JArr xs ps))"
  by (simp add: shaped_def getOwn_setOwn)

lemma sanitizeProject_idem:
  assumes "sanitizeProject proj = Inr proj'"
  shows "sanitizeProject proj' = Inr proj'"
proof (cases "isObjectLike proj")
  case True
  then have get: "getNamed v ''tech_stack'' = Inr (propOf v ''tech_stack'')" if "isObjectLike v" for v
    using that by (cases v) (simp_all add: propOf_def)
  show ?thesis
  proof (cases "isArray (propOf proj ''tech_stack'')")
    case isarr: True
    with True assms get [OF True] have "proj' = proj"
      by (cases "propOf proj ''tech_stack''") (simp_all add: sanitizeProject_def)
    with True isarr get [OF True] show ?thesis
      by (cases "propOf proj ''tech_stack''") (simp_all add: sanitizeProject_def)
  next
    case False
    with True assms get [OF True] obtain ts where p': "proj' = setNamed proj ''tech_stack'' (JArr ts [])"
      by (cases "propOf proj ''tech_stack''") (auto simp add: sanitizeProject_def)
    have "isObjectLike proj'"
      using True by (simp add: p' isObjectLike_setNamed)
    moreover have "propOf proj' ''tech_stack'' = JArr ts []"
      using True by (simp add: p' propOf_setNamed)
    ultimately show ?thesis
      using get [of proj'] by (simp add: sanitizeProject_def)
  qed
next
  case False
  with assms have "proj' = proj"
    by (cases proj) (simp_all add: sanitizeProject_def)
  with assms show ?thesis by simp
qed

lemma sanitizeProjects_idem:
  "sanitizeProjects xs = (xs', r) \<Longrightarrow> sanitizeProjects xs' = (xs', r)"
proof (induction xs arbitrary: xs' r)
  case Nil
  then show ?case by simp
next
  case (Cons proj rest)
  show ?case
  proof (cases "sanitizeProject proj")
    case (Inl e)
    with Cons.prems have "xs' = proj # rest" "r = Some e" by simp_all
    with Inl show ?thesis by simp
  next
    case (Inr proj')
    obtain rest' r' where rest: "sanitizeProjects rest = (rest', r')"
      by (cases "sanitizeProjects rest")
    with Inr Cons.prems have eq: "xs' = proj' # rest'" "r = r'" by simp_all
    from Cons.IH [OF rest] sanitizeProject_idem [OF Inr] show ?thesis
      by (simp add: eq)
  qed
qed

lemma sanitizeProject_shaped: "projectShaped proj \<Longrightarrow> sanitizeProject proj = Inr proj"
  by (cases proj; cases "propOf proj ''tech_stack''")
    (simp_all add: projectShaped_def sanitizeProject_def propOf_def)

lemma sanitizeProjects_shaped: "list_all projectShaped xs \<Longrightarrow> sanitizeProjects xs = (xs, None)"
  by (induction xs) (simp_all add: sanitizeProject_shaped)

lemma shaped_sanitizeProject: "sanitizeProject proj = Inr proj' \<Longrightarrow> projectShaped proj'"
  by (cases proj; cases "propOf proj ''tech_stack''")
    (auto simp add: projectShaped_def sanitizeProject_def propOf_def getOwn_setOwn split: if_splits)

lemma shaped_sanitizeProjects:
  "sanitizeProjects xs = (xs', None) \<Longrightarrow> list_all projectShaped xs'"
proof (induction xs arbitrary: xs')
  case Nil
  then show ?case by simp
next
  case (Cons proj rest)
  then show ?case
    by (auto split: sum.splits prod.splits dest: shaped_sanitizeProject)
qed

lemma projects_of_shapes:
  obtains xs ps where "getOwn (sanitizeShapes pd) ''projects'' = JArr xs ps"
  using shaped_sanitizeShapes [of pd]
  by (cases "getOwn (sanitizeShapes pd) ''projects''") (simp_all add: shaped_def)

lemma getOwn_sanitizeProfileData:
  "k \<noteq> ''projects'' \<Longrightarrow>
   getOwn (stateOf (sanitizeProfileData pd)) k = getOwn (sanitizeShapes pd) k"
  by (auto simp add: sanitizeProfileData_def Let_def getOwn_setOwn
      split: jsval.splits prod.splits option.splits)

lemma sanitizeProfileData_shaped:
  assumes "shaped pd" and "getOwn pd ''projects'' = JArr xs ps" and "sanitizeProjects xs = (xs', r)"
  shows "sanitizeProfileData pd =
    (case r of None \<Rightarrow> Normal (setOwn pd ''projects'' (JArr xs' []))
     | Some e \<Rightarrow> Thrown e (setOwn pd ''projects'' (JArr xs' ps)))"
  using assms by (simp add: sanitizeProfileData_def sanitizeShapes_id split: option.splits)

lemma sanitizeProfileData_idem:
  "sanitizeProfileData (stateOf (sanitizeProfileData pd)) = sanitizeProfileData pd"
proof -
  define sd where "sd = sanitizeShapes pd"
  have sh: "shaped sd"
    by (simp add: sd_def shaped_sanitizeShapes)
  obtain xs ps where proj: "getOwn sd ''projects'' = JArr xs ps"
    unfolding sd_def by (rule projects_of_shapes)
  obtain xs' r where sp: "sanitizeProjects xs = (xs', r)"
    by (cases "sanitizeProjects xs")
  have first: "sanitizeProfileData pd =
    (case r of None \<Rightarrow> Normal (setOwn sd ''projects'' (JArr xs' []))
     | Some e \<Rightarrow> Thrown e (setOwn sd ''projects'' (JArr xs' ps)))"
    using proj sp by (simp add: sanitizeProfileData_def sd_def [symmetric] split: option.splits)
  have again: "sanitizeProjects xs' = (xs', r)"
    using sp by (rule sanitizeProjects_idem)
  show ?thesis
  proof (cases r)
    case None
    let ?d = "setOwn sd ''projects'' (JArr xs' [])"
    have sh': "shaped ?d"
      using sh by (rule shaped_setOwn_projects)
    have proj': "getOwn ?d ''projects'' = JArr xs' []"
      by (simp add: getOwn_setOwn)
    have "sanitizeProfileData ?d = Normal (setOwn ?d ''projects'' (JArr xs' []))"
      using sanitizeProfileData_shaped [OF sh' proj' again] None by simp
    then show ?thesis
      by (simp add: first None setOwn_setOwn)
  next
    case (Some e)
    let ?d = "setOwn sd ''projects'' (JArr xs' ps)"
    have sh': "shaped ?d"
      using sh by (rule shaped_setOwn_projects)
    have proj': "getOwn ?d ''projects'' = JArr xs' ps"
      by (simp add: getOwn_setOwn)
    have "sanitizeProfileData ?d = Thrown e (setOwn ?d ''projects'' (JArr xs' ps))"
      using sanitizeProfileData_shaped [OF sh' proj' again] Some by simp
    then show ?thesis
      by (simp add: first Some setOwn_setOwn)
  qed
qed

lemma sanitizeProfileData_fixed:
  assumes "sanitized pd"
  shows "sanitizeProfileData pd = Normal pd"
proof -
  from assms have sh: "shaped pd"
    by (simp add: sanitized_def)
  from assms obtain xs where proj: "getOwn pd ''projects'' = JArr xs []"
    and ok: "list_all projectShaped xs"
    by (cases "getOwn pd ''projects''") (auto simp add: sanitized_def)
  have "setOwn pd ''projects'' (JArr xs []) = pd"
    using setOwn_getOwn [of pd "''projects''"] proj by simp
  with sanitizeProfileData_shaped [OF sh proj sanitizeProjects_shaped [OF ok]] show ?thesis
    by simp
qed

lemma sanitizeProfileData_sanitized:
  assumes "completed (sanitizeProfileData pd)"
  shows "sanitized (stateOf (sanitizeProfileData pd))"
proof -
  define sd where "sd = sanitizeShapes pd"
  have sh: "shaped sd"
    by (simp add: sd_def shaped_sanitizeShapes)
  obtain xs ps where proj: "getOwn sd ''projects'' = JArr xs ps"
    unfolding sd_def by (rule projects_of_shapes)
  obtain xs' r where sp: "sanitizeProjects xs = (xs', r)"
    by (cases "sanitizeProjects xs")
  have first: "sanitizeProfileData pd =
    (case r of None \<Rightarrow> Normal (setOwn sd ''projects'' (JArr xs' []))
     | Some e \<Rightarrow> Thrown e (setOwn sd ''projects'' (JArr xs' ps)))"
    using proj sp by (simp add: sanitizeProfileData_def sd_def [symmetric] split: option.splits)
  with assms have r: "r = None"
    by (cases r) simp_all
  with sp have "list_all projectShaped xs'"
    by (simp add: shaped_sanitizeProjects)
  with shaped_setOwn_projects [OF sh, of xs' "[]"] show ?thesis
    by (simp add: first r sanitized_def getOwn_setOwn)
qed

lemma namedKeys_propOf: "isArray (propOf v k) \<Longrightarrow> k \<in> set (namedKeys v)"
  by (cases v) (force simp add: propOf_def getOwn_def split: option.splits dest: map_of_SomeD)+

lemma namedKeys_ensureArrayIn:
  "isObjectLike v \<Longrightarrow> set (namedKeys (ensureArrayIn k v)) = insert k (set (namedKeys v))"
  by (auto simp add: ensureArrayIn_def namedKeys_setNamed dest: namedKeys_propOf)

text \<open>
  C2, as stated, fails: a sub-record that is already an object keeps exactly the keys it
  has (\<^verbatim>\<open>preferences\<close> gains only the two tag sets). Here \<^verbatim>\<open>links\<close> arrives with one key
  and \<^verbatim>\<open>preferences\<close> with one tag set.
\<close>

theorem sanitizeProfileData_partial_sub_records:
  "namedKeys (getOwn (stateOf (sanitizeProfileData
      [(''full_name'', JStr ''Asha'' :: int jsval),
       (''preferences'', JObj [(''work_mode'', JArr [JStr ''remote''] [])]),
       (''links'', JObj [(''github'', JStr ''https://github.com/asha'')])])) ''links'')
     = [''github'']
   \<and> namedKeys (getOwn (stateOf (sanitizeProfileData
      [(''full_name'', JStr ''Asha'' :: int jsval),
       (''preferences'', JObj [(''work_mode'', JArr [JStr ''remote''] [])]),
       (''links'', JObj [(''github'', JStr ''https://github.com/asha'')])])) ''preferences'')
     = [''work_mode'', ''employment_type'']
   \<and> ''linkedin'' \<notin> set (namedKeys (getOwn (stateOf (sanitizeProfileData
      [(''full_name'', JStr ''Asha'' :: int jsval),
       (''preferences'', JObj [(''work_mode'', JArr [JStr ''remote''] [])]),
       (''links'', JObj [(''github'', JStr ''https://github.com/asha'')])])) ''links''))
   \<and> ''expected_salary'' \<notin> set (namedKeys (getOwn (stateOf (sanitizeProfileData
      [(''full_name'', JStr ''Asha'' :: int jsval),
       (''preferences'', JObj [(''work_mode'', JArr [JStr ''remote''] [])]),
       (''links'', JObj [(''github'', JStr ''https://github.com/asha'')])])) ''preferences''))"
proof -
  let ?pd = "[(''full_name'', JStr ''Asha'' :: int jsval),
       (''preferences'', JObj [(''work_mode'', JArr [JStr ''remote''] [])]),
       (''links'', JObj [(''github'', JStr ''https://github.com/asha'')])] :: int draft"
  have before: "getOwn ?pd ''links'' = JObj [(''github'', JStr ''https://github.com/asha'')]"
    "getOwn ?pd ''preferences'' = JObj [(''work_mode'', JArr [JStr ''remote''] [])]"
    by (simp_all add: getOwn_def)
  have "getOwn (stateOf (sanitizeProfileData ?pd)) ''links''
      = JObj [(''github'', JStr ''https://github.com/asha'')]"
    by (simp add: getOwn_sanitizeProfileData getOwn_sanitizeShapes before)
  moreover have "getOwn (stateOf (sanitizeProfileData ?pd)) ''preferences''
      = JObj [(''work_mode'', JArr [JStr ''remote''] []), (''employment_type'', JArr [] [])]"
    by (simp add: getOwn_sanitizeProfileData getOwn_sanitizeShapes before)
      (simp add: ensureArrayIn_def propOf_def getOwn_def)
  ultimately show ?thesis
    by simp
qed

text \<open>
  C2, amended: after \<^verbatim>\<open>sanitizeProfileData\<close> the sub-records \<^verbatim>\<open>preferences\<close> and \<^verbatim>\<open>links\<close> are
  objects, and \<^verbatim>\<open>employment_type\<close> and \<^verbatim>\<open>work_mode\<close> of \<^verbatim>\<open>preferences\<close> are lists. A
  sub-record that was not an object is replaced by the record of all its known keys,
  lists empty and the rest \<^verbatim>\<open>null\<close>. A sub-record that was an object keeps its keys and
  values: \<^verbatim>\<open>links\<close> is untouched, and \<^verbatim>\<open>preferences\<close> changes only in that a tag set that
  is absent or not a list becomes the empty list; no other absent key is added.
\<close>

theorem sanitizeProfileData_sub_records:
  fixes pd :: "'n draft"
  shows "isObjectLike (getOwn (stateOf (sanitizeProfileData pd)) ''preferences'')
   \<and> isObjectLike (getOwn (stateOf (sanitizeProfileData pd)) ''links'')
   \<and> isArray (propOf (getOwn (stateOf (sanitizeProfileData pd)) ''preferences'') ''employment_type'')
   \<and> isArray (propOf (getOwn (stateOf (sanitizeProfileData pd)) ''preferences'') ''work_mode'')
   \<and> getOwn (stateOf (sanitizeProfileData pd)) ''links''
       = (if isObjectLike (getOwn pd ''links'') then getOwn pd ''links'' else defaultLinks)
   \<and> getOwn (stateOf (sanitizeProfileData pd)) ''preferences''
       = (if isObjectLike (getOwn pd ''preferences'')
          then ensureArrayIn ''work_mode'' (ensureArrayIn ''employment_type'' (getOwn pd ''preferences''))
          else defaultPreferences)
   \<and> namedKeys (getOwn (stateOf (sanitizeProfileData pd)) ''links'')
       = (if isObjectLike (getOwn pd ''links'') then namedKeys (getOwn pd ''links'') else linkKeys)
   \<and> set (namedKeys (getOwn (stateOf (sanitizeProfileData pd)) ''preferences''))
       = (if isObjectLike (getOwn pd ''preferences'')
          then set (namedKeys (getOwn pd ''preferences'')) \<union> {''employment_type'', ''work_mode''}
          else set preferenceKeys)
   \<and> propOf (getOwn (stateOf (sanitizeProfileData pd)) ''preferences'') k
       = (if isObjectLike (getOwn pd ''preferences'')
          then (if (k = ''employment_type'' \<or> k = ''work_mode'')
                   \<and> \<not> isArray (propOf (getOwn pd ''preferences'') k)
                then JArr [] [] else propOf (getOwn pd ''preferences'') k)
          else (if k = ''employment_type'' \<or> k = ''work_mode'' then JArr [] []
                else if k \<in> set preferenceKeys then JNull else JUndefined))
   \<and> propOf (defaultLinks :: 'n jsval) k = (if k \<in> set linkKeys then JNull else JUndefined)"
proof -
  let ?p = "getOwn pd ''preferences''"
  let ?p' = "getOwn (stateOf (sanitizeProfileData pd)) ''preferences''"
  let ?l' = "getOwn (stateOf (sanitizeProfileData pd)) ''links''"
  have p': "?p' = (if isObjectLike ?p
      then ensureArrayIn ''work_mode'' (ensureArrayIn ''employment_type'' ?p)
      else defaultPreferences)"
    by (simp add: getOwn_sanitizeProfileData getOwn_sanitizeShapes)
  have l': "?l' = (if isObjectLike (getOwn pd ''links'') then getOwn pd ''links'' else defaultLinks)"
    by (simp add: getOwn_sanitizeProfileData getOwn_sanitizeShapes)
  have dp: "propOf (defaultPreferences :: 'n jsval) k =
      (if k = ''employment_type'' \<or> k = ''work_mode'' then JArr [] []
       else if k \<in> set preferenceKeys then JNull else JUndefined)"
    by (simp add: defaultPreferences_def preferenceKeys_def propOf_def getOwn_def)
  have dl: "propOf (defaultLinks :: 'n jsval) k = (if k \<in> set linkKeys then JNull else JUndefined)"
    by (simp add: defaultLinks_def linkKeys_def propOf_def getOwn_def)
  have dk: "namedKeys (defaultPreferences :: 'n jsval) = preferenceKeys"
    "namedKeys (defaultLinks :: 'n jsval) = linkKeys"
    by (simp_all add: defaultPreferences_def preferenceKeys_def defaultLinks_def linkKeys_def)
  have "isObjectLike ?p'" "isObjectLike ?l'"
    by (simp_all add: p' l' isObjectLike_ensureArrayIn defaults_shaped)
  moreover have "isArray (propOf ?p' ''employment_type'')" "isArray (propOf ?p' ''work_mode'')"
    by (simp_all add: p' propOf_ensureArrayIn isObjectLike_ensureArrayIn defaults_shaped)
  moreover have "namedKeys ?l' =
      (if isObjectLike (getOwn pd ''links'') then namedKeys (getOwn pd ''links'') else linkKeys)"
    by (simp add: l' dk)
  moreover have "set (namedKeys ?p') =
      (if isObjectLike ?p then set (namedKeys ?p) \<union> {''employment_type'', ''work_mode''}
       else set preferenceKeys)"
    by (auto simp add: p' dk namedKeys_ensureArrayIn isObjectLike_ensureArrayIn)
  moreover have "propOf ?p' k =
      (if isObjectLike ?p
       then (if (k = ''employment_type'' \<or> k = ''work_mode'') \<and> \<not> isArray (propOf ?p k)
             then JArr [] [] else propOf ?p k)
       else (if k = ''employment_type'' \<or> k = ''work_mode'' then JArr [] []
             else if k \<in> set preferenceKeys then JNull else JUndefined))"
    by (auto simp add: p' dp propOf_ensureArrayIn isObjectLike_ensureArrayIn)
  ultimately show ?thesis
    using l' p' dl by simp
qed

lemma getOwn_projects_sanitizeProfileData:
  assumes "getOwn pd ''projects'' = JArr xs []" and "list_all projectShaped xs"
  shows "getOwn (stateOf (sanitizeProfileData pd)) ''projects'' = JArr xs []"
proof -
  have "getOwn (sanitizeShapes pd) ''projects'' = JArr xs []"
    using assms(1) by (simp add: getOwn_sanitizeShapes collectionKeys_def)
  with sanitizeProjects_shaped [OF assms(2)] show ?thesis
    by (simp add: sanitizeProfileData_def getOwn_setOwn)
qed

text \<open>
  C3: sanitizing twice is sanitizing once, also when the first run throws on a \<^verbatim>\<open>null\<close>
  project; a draft that satisfies the shape invariants is returned as it is, and a run
  that completes establishes them; field by field, a property that is none of the seven
  the function looks at is never touched, and each of the seven that already has its
  shape is left unchanged.
\<close>

theorem sanitizeProfileData_idempotent:
  fixes pd :: "'n draft"
  shows "sanitizeProfileData (stateOf (sanitizeProfileData pd)) = sanitizeProfileData pd
    \<and> (sanitized pd \<longrightarrow> sanitizeProfileData pd = Normal pd)
    \<and> (completed (sanitizeProfileData pd) \<longrightarrow> sanitized (stateOf (sanitizeProfileData pd)))
    \<and> (k \<notin> set collectionKeys \<and> k \<noteq> ''preferences'' \<and> k \<noteq> ''links''
        \<longrightarrow> getOwn (stateOf (sanitizeProfileData pd)) k = getOwn pd k)
    \<and> (c \<in> set collectionKeys \<and> c \<noteq> ''projects'' \<and> isArray (getOwn pd c)
        \<longrightarrow> getOwn (stateOf (sanitizeProfileData pd)) c = getOwn pd c)
    \<and> (getOwn pd ''projects'' = JArr xs [] \<and> list_all projectShaped xs
        \<longrightarrow> getOwn (stateOf (sanitizeProfileData pd)) ''projects'' = JArr xs [])
    \<and> (isObjectLike (getOwn pd ''preferences'')
        \<and> isArray (propOf (getOwn pd ''preferences'') ''employment_type'')
        \<and> isArray (propOf (getOwn pd ''preferences'') ''work_mode'')
        \<longrightarrow> getOwn (stateOf (sanitizeProfileData pd)) ''preferences'' = getOwn pd ''preferences'')
    \<and> (isObjectLike (getOwn pd ''links'')
        \<longrightarrow> getOwn (stateOf (sanitizeProfileData pd)) ''links'' = getOwn pd ''links'')"
proof (intro conjI impI)
  show "sanitizeProfileData (stateOf (sanitizeProfileData pd)) = sanitizeProfileData pd"
    by (rule sanitizeProfileData_idem)
  show "sanitizeProfileData pd = Normal pd" if "sanitized pd"
    using that by (rule sanitizeProfileData_fixed)
  show "sanitized (stateOf (sanitizeProfileData pd))" if "completed (sanitizeProfileData pd)"
    using that by (rule sanitizeProfileData_sanitized)
  show "getOwn (stateOf (sanitizeProfileData pd)) k = getOwn pd k"
    if "k \<notin> set collectionKeys \<and> k \<noteq> ''preferences'' \<and> k \<noteq> ''links''"
    using that by (simp add: getOwn_sanitizeProfileData getOwn_sanitizeShapes collectionKeys_def)
  show "getOwn (stateOf (sanitizeProfileData pd)) c = getOwn pd c"
    if "c \<in> set collectionKeys \<and> c \<noteq> ''projects'' \<and> isArray (getOwn pd c)"
    using that by (auto simp add: getOwn_sanitizeProfileData getOwn_sanitizeShapes collectionKeys_def)
  show "getOwn (stateOf (sanitizeProfileData pd)) ''projects'' = JArr xs []"
    if "getOwn pd ''projects'' = JArr xs [] \<and> list_all projectShaped xs"
    using that by (simp add: getOwn_projects_sanitizeProfileData)
  show "getOwn (stateOf (sanitizeProfileData pd)) ''preferences'' = getOwn pd ''preferences''"
    if "isObjectLike (getOwn pd ''preferences'')
        \<and> isArray (propOf (getOwn pd ''preferences'') ''employment_type'')
        \<and> isArray (propOf (getOwn pd ''preferences'') ''work_mode'')"
    using that by (simp add: getOwn_sanitizeProfileData getOwn_sanitizeShapes ensureArrayIn_id)
  show "getOwn (stateOf (sanitizeProfileData pd)) ''links'' = getOwn pd ''links''"
    if "isObjectLike (getOwn pd ''links'')"
    using that by (simp add: getOwn_sanitizeProfileData getOwn_sanitizeShapes)
qed

lemma sanitizeProfileData_legacyDraft: "sanitizeProfileData legacyDraft = Normal tidyDraft"
  by code_simp

theorem sanitizeProfileData_idempotent_witness:
  "sanitizeProfileData legacyDraft = Normal tidyDraft
   \<and> sanitizeProfileData tidyDraft = Normal tidyDraft
   \<and> sanitized tidyDraft
   \<and> getOwn (stateOf (sanitizeProfileData tidyDraft)) ''full_name'' = JStr ''Asha''
   \<and> getOwn (stateOf (sanitizeProfileData tidyDraft)) ''skills'' = JArr [] []
   \<and> getOwn (stateOf (sanitizeProfileData tidyDraft)) ''links''
       = JObj [(''github'', JStr ''https://github.com/asha'')]
   \<and> getOwn (stateOf (sanitizeProfileData tidyDraft)) ''preferences'' = defaultPreferences
   \<and> getOwn (stateOf (sanitizeProfileData tidyDraft)) ''projects''
       = JArr [JObj [(''title'', JStr ''Prover''),
                     (''tech_stack'', JArr [JStr ''HOL'', JStr ''SML''] [])]] []"
proof -
  let ?xs = "[JObj [(''title'', JStr ''Prover''),
                    (''tech_stack'', JArr [JStr ''HOL'', JStr ''SML''] [])]] :: int jsval list"
  have fields: "getOwn tidyDraft ''full_name'' = JStr ''Asha''"
    "getOwn tidyDraft ''skills'' = JArr [] []"
    "getOwn tidyDraft ''links'' = JObj [(''github'', JStr ''https://github.com/asha'')]"
    "getOwn tidyDraft ''preferences'' = defaultPreferences"
    "getOwn tidyDraft ''projects'' = JArr ?xs []"
    by (simp_all add: tidyDraft_def getOwn_def)
  have hyps: "''full_name'' \<notin> set collectionKeys \<and> ''full_name'' \<noteq> ''preferences''
      \<and> ''full_name'' \<noteq> ''links''"
    "''skills'' \<in> set collectionKeys \<and> ''skills'' \<noteq> ''projects'' \<and> isArray (getOwn tidyDraft ''skills'')"
    "getOwn tidyDraft ''projects'' = JArr ?xs [] \<and> list_all projectShaped ?xs"
    "isObjectLike (getOwn tidyDraft ''preferences'')
      \<and> isArray (propOf (getOwn tidyDraft ''preferences'') ''employment_type'')
      \<and> isArray (propOf (getOwn tidyDraft ''preferences'') ''work_mode'')"
    "isObjectLike (getOwn tidyDraft ''links'')"
    by (simp_all add: fields collectionKeys_def projectShaped_def)
      (simp_all add: propOf_def getOwn_def defaultPreferences_def)
  have "completed (sanitizeProfileData legacyDraft)"
    by (simp add: sanitizeProfileData_legacyDraft)
  with sanitizeProfileData_idempotent [of legacyDraft "''full_name''" "''skills''" ?xs]
  have "sanitized tidyDraft"
    by (simp add: sanitizeProfileData_legacyDraft)
  with sanitizeProfileData_idempotent [of tidyDraft "''full_name''" "''skills''" ?xs] hyps
  show ?thesis
    by (simp add: sanitizeProfileData_legacyDraft fields)
qed

theorem sanitizeProfileData_sub_records_witness:
  "getOwn (stateOf (sanitizeProfileData legacyDraft)) ''links''
     = JObj [(''github'', JStr ''https://github.com/asha'')]
   \<and> getOwn (stateOf (sanitizeProfileData legacyDraft)) ''preferences'' = defaultPreferences
   \<and> set (namedKeys (getOwn (stateOf (sanitizeProfileData legacyDraft)) ''preferences''))
       = set preferenceKeys"
proof -
  have "getOwn legacyDraft ''links'' = JObj [(''github'', JStr ''https://github.com/asha'')]"
    "getOwn legacyDraft ''preferences'' = JUndefined"
    by (simp_all add: legacyDraft_def getOwn_def)
  with sanitizeProfileData_sub_records [of legacyDraft "''work_mode''"]
  have "getOwn (stateOf (sanitizeProfileData legacyDraft)) ''links''
      = JObj [(''github'', JStr ''https://github.com/asha'')]"
    and "getOwn (stateOf (sanitizeProfileData legacyDraft)) ''preferences'' = defaultPreferences"
    and "set (namedKeys (getOwn (stateOf (sanitizeProfileData legacyDraft)) ''preferences''))
      = set preferenceKeys"
    by (simp_all add: defaultPreferences_def preferenceKeys_def)
  then show ?thesis
    by (intro conjI)
qed

section \<open>Properties of the wizard\<close>

lemma collectionKey_inject: "collectionKey c = collectionKey c' \<longleftrightarrow> c = c'"
  by (cases c; cases c') simp_all

lemma showNotification_fields:
  "currentStep (showNotification m t st) = currentStep st"
  "profileData (showNotification m t st) = profileData st"
  "editing (showNotification m t st) = editing st"
  "modalHidden (showNotification m t st) = modalHidden st"
  "notifications (showNotification m t st) = notifications st @ [(m, t)]"
  by (simp_all add: showNotification_def)

lemma closeModal_fields:
  "currentStep (closeModal c st) = currentStep st"
  "profileData (closeModal c st) = profileData st"
  "editing (closeModal c st) = (editing st)(c := - 1)"
  "modalHidden (closeModal c st) = (modalHidden st)(c := True)"
  "notifications (closeModal c st) = notifications st"
  by (simp_all add: closeModal_def)

lemma openForm_fields:
  "currentStep (openForm c st) = currentStep st"
  "profileData (openForm c st) = profileData st"
  "editing (openForm c st) = (editing st)(c := - 1)"
  "modalHidden (openForm c st) = (modalHidden st)(c := False)"
  "notifications (openForm c st) = notifications st"
  by (simp_all add: openForm_def)

lemma entries_cong: "profileData st' = profileData st \<Longrightarrow> entries c st' = entries c st"
  by (simp add: entries_def)

lemma isSequence_cong: "profileData st' = profileData st \<Longrightarrow> isSequence c st' = isSequence c st"
  by (simp add: isSequence_def)

lemma sequence_cases:
  assumes "isSequence c st"
  obtains ps where "getOwn (profileData st) (collectionKey c) = JArr (entries c st) ps"
  using assms by (cases "getOwn (profileData st) (collectionKey c)") (simp_all add: isSequence_def entries_def)

lemma entries_setOwn:
  "entries c (st\<lparr>profileData := setOwn (profileData st) (collectionKey c') (JArr xs ps)\<rparr>)
     = (if c = c' then xs else entries c st)"
  by (simp add: entries_def getOwn_setOwn collectionKey_inject)

lemma isSequence_setOwn:
  "isSequence c (st\<lparr>profileData := setOwn (profileData st) (collectionKey c') (JArr xs ps)\<rparr>)
     = (c = c' \<or> isSequence c st)"
  by (simp add: isSequence_def getOwn_setOwn collectionKey_inject)

lemma saveEntry_entries:
  assumes "isSequence c st"
  shows "entries c' (stateOf (saveEntry pg c e m st)) =
    (if c' = c then (if editing st c \<ge> 0 then storeAt (entries c st) (nat (editing st c)) e
                     else entries c st @ [e])
     else entries c' st)"
proof -
  from assms obtain ps where arr: "getOwn (profileData st) (collectionKey c) = JArr (entries c st) ps"
    by (rule sequence_cases)
  show ?thesis
    by (simp add: saveEntry_def arr Let_def entries_setOwn
        entries_cong [OF showNotification_fields(2)] entries_cong [OF closeModal_fields(2)])
qed

lemma appended_append: "appended e xs (xs @ [e])"
  by (simp add: appended_def list_all_iff nth_append)

lemma replacedAt_storeAt: "i < length xs \<Longrightarrow> replacedAt i e xs (storeAt xs i e)"
  by (auto simp add: replacedAt_def storeAt_def list_all_iff nth_list_update)

lemma removedAt_splice1:
  assumes "0 \<le> i" and "i < int (length xs)"
  shows "removedAt (nat i) xs (splice1 xs i)"
proof -
  from assms have s: "splice1 xs i = take (nat i) xs @ drop (nat i + 1) xs"
    by (simp add: splice1_def Let_def min_def)
  from assms have n: "nat i < length xs" by simp
  show ?thesis
    unfolding s removedAt_def using n
    by (auto simp add: list_all_iff nth_append min_def)
qed

lemma openEditor_eq: "openEditor c = openForm c"
  by (cases c)
    (simp_all add: openEducationForm_def openSkillForm_def openExperienceForm_def
      openProjectForm_def openCertificationForm_def)

lemma closeEditor_eq: "closeEditor c = closeModal c"
  by (cases c)
    (simp_all add: closeEducationModal_def closeSkillModal_def closeExperienceModal_def
      closeProjectModal_def closeCertificationModal_def)

lemma editAt_eq: "editAt c = editEntry c"
  by (cases c)
    (simp_all add: editEducation_def editSkill_def editExperience_def editProject_def
      editCertification_def)

lemma deleteAt_eq: "\<exists>m. deleteAt pg confirmed c i = deleteEntry pg confirmed c i m"
  by (cases c)
    (auto simp add: deleteEducation_def deleteSkill_def deleteExperience_def deleteProject_def
      deleteCertification_def)

lemma submit_eq:
  "\<exists>m. submit pg pI pF form st =
     (if accepted form then saveEntry pg (editorOf form) (entryOf pI pF form) m st
      else Normal (showNotification ''Please add at least one technology in Tech Stack''
             ''warning'' st))"
  by (cases form)
    (auto simp add: saveEducationEntry_def saveSkillEntry_def saveExperienceEntry_def
      saveProjectEntry_def saveCertificationEntry_def)

lemma submit_entries:
  assumes "isSequence (editorOf form) st"
  shows "entries (editorOf form) (stateOf (submit pg pI pF form st)) =
    (if \<not> accepted form then entries (editorOf form) st
     else if editing st (editorOf form) \<ge> 0
       then storeAt (entries (editorOf form) st) (nat (editing st (editorOf form))) (entryOf pI pF form)
       else entries (editorOf form) st @ [entryOf pI pF form])"
proof -
  obtain m where "submit pg pI pF form st =
     (if accepted form then saveEntry pg (editorOf form) (entryOf pI pF form) m st
      else Normal (showNotification ''Please add at least one technology in Tech Stack''
             ''warning'' st))"
    using submit_eq by blast
  then show ?thesis
    using assms
    by (simp add: saveEntry_entries entries_cong [OF showNotification_fields(2)])
qed

lemma deleteEntry_entries:
  assumes "isSequence c st"
  shows "entries c (stateOf (deleteEntry pg True c i m st)) = splice1 (entries c st) i"
proof -
  from assms obtain ps where arr: "getOwn (profileData st) (collectionKey c) = JArr (entries c st) ps"
    by (rule sequence_cases)
  show ?thesis
    by (simp add: deleteEntry_def arr Let_def entries_setOwn
        entries_cong [OF showNotification_fields(2)])
qed

lemma saveEntry_currentStep: "currentStep (stateOf (saveEntry pg c e m st)) = currentStep st"
  by (cases "getOwn (profileData st) (collectionKey c)")
    (simp_all add: saveEntry_def Let_def showNotification_fields closeModal_fields)

lemma saveEntry_isSequence:
  assumes "isSequence c st"
  shows "isSequence c' (stateOf (saveEntry pg c e m st)) = isSequence c' st"
proof -
  from assms obtain ps where arr: "getOwn (profileData st) (collectionKey c) = JArr (entries c st) ps"
    by (rule sequence_cases)
  show ?thesis
    using assms
    by (auto simp add: saveEntry_def arr Let_def isSequence_setOwn
        isSequence_cong [OF showNotification_fields(2)] isSequence_cong [OF closeModal_fields(2)])
qed

lemma submit_currentStep: "currentStep (stateOf (submit pg pI pF form st)) = currentStep st"
  using submit_eq [of pg pI pF form st]
  by (auto simp add: saveEntry_currentStep showNotification_fields)

lemma submit_isSequence:
  assumes "isSequence (editorOf form) st"
  shows "isSequence c' (stateOf (submit pg pI pF form st)) = isSequence c' st"
proof -
  obtain m where "submit pg pI pF form st =
     (if accepted form then saveEntry pg (editorOf form) (entryOf pI pF form) m st
      else Normal (showNotification ''Please add at least one technology in Tech Stack''
             ''warning'' st))"
    using submit_eq by blast
  then show ?thesis
    by (cases "accepted form")
      (simp_all add: saveEntry_isSequence [OF assms] isSequence_cong [OF showNotification_fields(2)])
qed

text \<open>The per-field cleanup of a submitted form, field by field.\<close>

lemma trimOrNull_cases:
  "trimOrNull None = JNull"
  "trimOrNull (Some s) = (if trim s = [] then JNull else JStr (trim s))"
  by (simp_all add: trimOrNull_def)

lemma educationEntry_fields:
  "propOf (educationEntry parseInt parseFloat f) ''level'' = JStr (edu_level f)"
  "propOf (educationEntry parseInt parseFloat f) ''board_university'' = JStr (edu_board_university f)"
  "propOf (educationEntry parseInt parseFloat f) ''school_college'' = JStr (edu_school_college f)"
  "propOf (educationEntry parseInt parseFloat f) ''year'' = JNum (parseInt (edu_year f))"
  "propOf (educationEntry parseInt parseFloat f) ''percentage_cgpa''
     = JNum (parseFloat (edu_percentage_cgpa f))"
  "propOf (educationEntry parseInt parseFloat f) ''degree'' = trimOrNull (edu_degree f)"
  "propOf (educationEntry parseInt parseFloat f) ''branch'' = trimOrNull (edu_branch f)"
  by (simp_all add: educationEntry_def propOf_def getOwn_def)

lemma skillEntry_fields:
  "propOf (skillEntry f) ''name'' = JStr (trim (skill_name f))"
  "propOf (skillEntry f) ''proficiency'' = JStr (skill_proficiency f)"
  "propOf (skillEntry f) ''category'' = trimOrNull (skill_category f)"
  by (simp_all add: skillEntry_def propOf_def getOwn_def)

lemma experienceEntry_fields:
  "propOf (experienceEntry f) ''company'' = JStr (trim (exp_company f))"
  "propOf (experienceEntry f) ''role'' = JStr (trim (exp_role f))"
  "propOf (experienceEntry f) ''start_date'' = JStr (trim (exp_start_date f))"
  "propOf (experienceEntry f) ''end_date'' = trimOrNull (exp_end_date f)"
  "propOf (experienceEntry f) ''is_current'' = JBool (exp_is_current f)"
  "propOf (experienceEntry f) ''description'' = JStr (trim (exp_description f))"
  "propOf (experienceEntry f) ''location'' = trimOrNull (exp_location f)"
  by (simp_all add: experienceEntry_def propOf_def getOwn_def)

lemma projectEntry_fields:
  "propOf (projectEntry f) ''title'' = JStr (trim (proj_title f))"
  "propOf (projectEntry f) ''description'' = JStr (trim (proj_description f))"
  "propOf (projectEntry f) ''tech_stack'' = JArr (map JStr (splitTags (proj_tech_stack f))) []"
  "propOf (projectEntry f) ''link'' = trimOrNull (proj_link f)"
  "propOf (projectEntry f) ''github_link'' = trimOrNull (proj_github_link f)"
  "propOf (projectEntry f) ''start_date'' = trimOrNull (proj_start_date f)"
  "propOf (projectEntry f) ''end_date'' = trimOrNull (proj_end_date f)"
  by (simp_all add: projectEntry_def propOf_def getOwn_def)

lemma certificationEntry_fields:
  "propOf (certificationEntry f) ''name'' = JStr (trim (cert_name f))"
  "propOf (certificationEntry f) ''issuer'' = JStr (trim (cert_issuer f))"
  "propOf (certificationEntry f) ''issue_date'' = JStr (trim (cert_issue_date f))"
  "propOf (certificationEntry f) ''expiry_date'' = trimOrNull (cert_expiry_date f)"
  "propOf (certificationEntry f) ''credential_id'' = trimOrNull (cert_credential_id f)"
  "propOf (certificationEntry f) ''credential_url'' = trimOrNull (cert_credential_url f)"
  by (simp_all add: certificationEntry_def propOf_def getOwn_def)

text \<open>
  C4, as stated, fails for the projects editor: with the sentinel at -1 a submitted
  project form whose technology tags come out empty is not appended.
\<close>

theorem untagged_project_is_not_appended:
  "isSequence Project initialWizard \<and> editing initialWizard Project = - 1
   \<and> \<not> appended (entryOf digitsValue digitsValue (ProjectForm untaggedProject))
         (entries Project initialWizard)
         (entries Project
            (stateOf (submit filledPage digitsValue digitsValue (ProjectForm untaggedProject)
               initialWizard)))"
proof -
  have tags: "splitTags (proj_tech_stack untaggedProject) = []"
    by (simp add: untaggedProject_def sampleProject_def splitTags_def trim_def isSpace_def)
  have seq: "isSequence Project initialWizard"
    by (simp add: isSequence_def initialWizard_def initialProfileData_def getOwn_def)
  have "entries Project (stateOf (submit filledPage digitsValue digitsValue
      (ProjectForm untaggedProject) initialWizard)) = entries Project initialWizard"
    using submit_entries [of "ProjectForm untaggedProject" initialWizard] seq tags by simp
  moreover have "editing initialWizard Project = - 1"
    by (simp add: initialWizard_def)
  ultimately show ?thesis
    using seq by (simp add: appended_def)
qed

lemma appended_unique:
  assumes "appended e xs ys"
  shows "ys = xs @ [e]"
proof (rule nth_equalityI)
  from assms show "length ys = length (xs @ [e])"
    by (simp add: appended_def)
next
  fix j
  assume "j < length ys"
  with assms have "j < length xs \<or> j = length xs"
    by (auto simp add: appended_def)
  with assms show "ys ! j = (xs @ [e]) ! j"
    by (auto simp add: appended_def list_all_iff nth_append)
qed

lemma replacedAt_unique:
  assumes "replacedAt i e xs ys" and "i < length xs"
  shows "ys = xs[i := e]"
proof (rule nth_equalityI)
  from assms show "length ys = length (xs[i := e])"
    by (simp add: replacedAt_def)
next
  fix j
  assume "j < length ys"
  with assms show "ys ! j = xs[i := e] ! j"
    by (auto simp add: replacedAt_def list_all_iff nth_list_update)
qed

text \<open>
  C4, amended: for each of the five editors, a save that is accepted (every save but that
  of a project whose technology tags come out empty) while the sentinel is -1 appends
  exactly one record, leaving every prior element unchanged; while the sentinel is an
  index of the list it replaces that index with the record and leaves the length and all
  other indices unchanged. The record is the submitted form after the cleanup of its
  fields: optional fields trimmed, and \<^verbatim>\<open>null\<close> when absent or blank; the year and the grade
  of an education entry parsed; the technology tags split at commas, trimmed and without
  empty tags; the level, board and school of an education entry, the proficiency of a
  skill and the check box of an experience as entered; every other field trimmed.
\<close>

theorem accepted_save_appends_or_replaces:
  assumes "isSequence (editorOf form) st" and "accepted form"
  shows "(editing st (editorOf form) = - 1 \<longrightarrow>
            appended (normalized parseInt parseFloat form) (entries (editorOf form) st)
              (entries (editorOf form) (stateOf (submit pg parseInt parseFloat form st))))
    \<and> (0 \<le> editing st (editorOf form)
        \<and> editing st (editorOf form) < int (length (entries (editorOf form) st)) \<longrightarrow>
            replacedAt (nat (editing st (editorOf form))) (normalized parseInt parseFloat form)
              (entries (editorOf form) st)
              (entries (editorOf form) (stateOf (submit pg parseInt parseFloat form st))))"
proof -
  have optional: "trimOrNull field = emptyToNull field" for field
    by (simp add: trimOrNull_def emptyToNull_def split: option.splits)
  have tags: "splitTags input = tagList input" for input
    by (simp add: splitTags_def tagList_def split_pieces)
  have built: "normalized parseInt parseFloat form = entryOf parseInt parseFloat form"
    by (cases form)
      (simp_all add: educationEntry_def skillEntry_def experienceEntry_def projectEntry_def
        certificationEntry_def optional tags)
  from assms show ?thesis
    unfolding built
    by (auto simp add: submit_entries appended_append intro!: replacedAt_storeAt)
qed

theorem accepted_save_appends_or_replaces_witness:
  "entries Skill (stateOf (submit filledPage digitsValue digitsValue (SkillForm sampleSkill)
      threeSkills))
     = [JObj [(''name'', JStr ''HOL'')], JObj [(''name'', JStr ''SML'')],
        JObj [(''name'', JStr ''Coq'')],
        JObj [(''name'', JStr ''HOL''), (''proficiency'', JStr ''Advanced''),
              (''category'', JNull)]]
   \<and> editing (stateOf (editAt Skill 1 threeSkills)) Skill = 1
   \<and> entries Skill (stateOf (submit filledPage digitsValue digitsValue (SkillForm sampleSkill)
        (stateOf (editAt Skill 1 threeSkills))))
     = [JObj [(''name'', JStr ''HOL'')],
        JObj [(''name'', JStr ''HOL''), (''proficiency'', JStr ''Advanced''),
              (''category'', JNull)],
        JObj [(''name'', JStr ''Coq'')]]
   \<and> entries Education (stateOf (submit filledPage digitsValue digitsValue
        (EducationForm sampleEducation) initialWizard))
     = [JObj [(''level'', JStr ''UG''), (''board_university'', JStr ''SPPU''),
              (''school_college'', JStr ''COEP''), (''year'', JNum 2024),
              (''percentage_cgpa'', JNum 8), (''degree'', JStr ''BTech''), (''branch'', JNull)]]
   \<and> entries Experience (stateOf (submit filledPage digitsValue digitsValue
        (ExperienceForm sampleExperience) initialWizard))
     = [JObj [(''company'', JStr ''Acme''), (''role'', JStr ''Intern''),
              (''start_date'', JStr ''2023-06''), (''end_date'', JNull),
              (''is_current'', JBool True), (''description'', JStr ''Built tools.''),
              (''location'', JStr ''Pune'')]]
   \<and> entries Project (stateOf (submit filledPage digitsValue digitsValue
        (ProjectForm sampleProject) initialWizard))
     = [JObj [(''title'', JStr ''Prover''), (''description'', JStr ''A proof checker''),
              (''tech_stack'', JArr [JStr ''HOL'', JStr ''SML''] []), (''link'', JNull),
              (''github_link'', JNull), (''start_date'', JNull), (''end_date'', JNull)]]
   \<and> entries Certification (stateOf (submit filledPage digitsValue digitsValue
        (CertificationForm sampleCertification) initialWizard))
     = [JObj [(''name'', JStr ''Logic 101''), (''issuer'', JStr ''TUM''),
              (''issue_date'', JStr ''2024-01''), (''expiry_date'', JNull),
              (''credential_id'', JStr ''X-7''), (''credential_url'', JNull)]]"
proof -
  have skills: "getOwn (profileData threeSkills) ''skills''
      = JArr [JObj [(''name'', JStr ''HOL'')], JObj [(''name'', JStr ''SML'')],
              JObj [(''name'', JStr ''Coq'')]] []"
    by (simp add: threeSkills_def getOwn_setOwn)
  have new: "isSequence Skill threeSkills" "editing threeSkills Skill = - 1"
    "entries Skill threeSkills = [JObj [(''name'', JStr ''HOL'')], JObj [(''name'', JStr ''SML'')],
              JObj [(''name'', JStr ''Coq'')]]"
    by (simp_all add: isSequence_def entries_def skills) (simp add: threeSkills_def initialWizard_def)
  define st where "st = stateOf (editSkill 1 threeSkills)"
  have st: "st = threeSkills\<lparr>editing := (editing threeSkills)(Skill := 1),
      modalHidden := (modalHidden threeSkills)(Skill := False)\<rparr>"
    by (simp add: st_def editSkill_def editEntry_def skills Let_def)
  have edit: "isSequence Skill st" "editing st Skill = 1"
    "entries Skill st = [JObj [(''name'', JStr ''HOL'')], JObj [(''name'', JStr ''SML'')],
              JObj [(''name'', JStr ''Coq'')]]"
    by (simp_all add: st isSequence_def entries_def skills)
  have empty: "isSequence c initialWizard" "editing initialWizard c = - 1"
    "entries c initialWizard = []" for c
    by (cases c; simp add: isSequence_def entries_def initialWizard_def initialProfileData_def
        getOwn_def)+
  have tags: "pieces CHR '','' ''HOL, SML,'' = [''HOL'', '' SML'', []]"
    by (simp add: pieces_Cons pieces_Nil)
  have project: "accepted (ProjectForm sampleProject)"
    by (simp add: sampleProject_def splitTags_tagList tagList_def tags trim_def isSpace_def)
  have skill: "normalized digitsValue digitsValue (SkillForm sampleSkill)
      = JObj [(''name'', JStr ''HOL''), (''proficiency'', JStr ''Advanced''), (''category'', JNull)]"
    by (simp add: sampleSkill_def emptyToNull_def trim_def isSpace_def)
  have education: "normalized digitsValue digitsValue (EducationForm sampleEducation)
      = JObj [(''level'', JStr ''UG''), (''board_university'', JStr ''SPPU''),
              (''school_college'', JStr ''COEP''), (''year'', JNum 2024),
              (''percentage_cgpa'', JNum 8), (''degree'', JStr ''BTech''), (''branch'', JNull)]"
    by (simp add: sampleEducation_def emptyToNull_def trim_def isSpace_def digitsValue_def)
  have experience: "normalized digitsValue digitsValue (ExperienceForm sampleExperience)
      = JObj [(''company'', JStr ''Acme''), (''role'', JStr ''Intern''),
              (''start_date'', JStr ''2023-06''), (''end_date'', JNull),
              (''is_current'', JBool True), (''description'', JStr ''Built tools.''),
              (''location'', JStr ''Pune'')]"
    by (simp add: sampleExperience_def emptyToNull_def trim_def isSpace_def)
  have projectRecord: "normalized digitsValue digitsValue (ProjectForm sampleProject)
      = JObj [(''title'', JStr ''Prover''), (''description'', JStr ''A proof checker''),
              (''tech_stack'', JArr [JStr ''HOL'', JStr ''SML''] []), (''link'', JNull),
              (''github_link'', JNull), (''start_date'', JNull), (''end_date'', JNull)]"
    by (simp add: sampleProject_def emptyToNull_def tagList_def tags trim_def isSpace_def)
  have certification: "normalized digitsValue digitsValue (CertificationForm sampleCertification)
      = JObj [(''name'', JStr ''Logic 101''), (''issuer'', JStr ''TUM''),
              (''issue_date'', JStr ''2024-01''), (''expiry_date'', JNull),
              (''credential_id'', JStr ''X-7''), (''credential_url'', JNull)]"
    by (simp add: sampleCertification_def emptyToNull_def trim_def isSpace_def)
  have a: "entries Skill (stateOf (submit filledPage digitsValue digitsValue
      (SkillForm sampleSkill) threeSkills))
      = entries Skill threeSkills @ [normalized digitsValue digitsValue (SkillForm sampleSkill)]"
    using accepted_save_appends_or_replaces
      [of "SkillForm sampleSkill" threeSkills digitsValue digitsValue filledPage,
        THEN conjunct1] new
    by (intro appended_unique) simp
  have b: "entries Skill (stateOf (submit filledPage digitsValue digitsValue
      (SkillForm sampleSkill) st))
      = (entries Skill st)[1 := normalized digitsValue digitsValue (SkillForm sampleSkill)]"
    using accepted_save_appends_or_replaces
      [of "SkillForm sampleSkill" st digitsValue digitsValue filledPage, THEN conjunct2] edit
    by (intro replacedAt_unique) simp_all
  have c: "entries (editorOf form) (stateOf (submit filledPage digitsValue digitsValue form
      initialWizard)) = [normalized digitsValue digitsValue form]" if "accepted form" for form
    using accepted_save_appends_or_replaces
      [of form initialWizard digitsValue digitsValue filledPage, THEN conjunct1] empty that
      appended_unique [of "normalized digitsValue digitsValue form" "[]"
        "entries (editorOf form) (stateOf (submit filledPage digitsValue digitsValue form
           initialWizard))"]
    by simp
  have d: "editing st Skill = 1"
    by (rule edit(2))
  from a b d c [of "EducationForm sampleEducation"] c [of "ExperienceForm sampleExperience"]
    c [OF project] c [of "CertificationForm sampleCertification"]
  show ?thesis
    unfolding skill education experience projectRecord certification new(3) edit(3)
    by (simp add: st_def [symmetric])
qed

text \<open>
  C6: when the technology tags of the submitted project come out empty,
  \<^verbatim>\<open>saveProjectEntry\<close> logs a warning and returns: the draft (so the projects list, its
  length and every element), every editing sentinel and the visibility of every modal are
  as before.
\<close>

theorem untagged_project_save_changes_nothing:
  assumes "splitTags (proj_tech_stack form) = []"
  shows "saveProjectEntry pg form st =
      Normal (st\<lparr>notifications := notifications st
                 @ [(''Please add at least one technology in Tech Stack'', ''warning'')]\<rparr>)
    \<and> profileData (stateOf (saveProjectEntry pg form st)) = profileData st
    \<and> entries Project (stateOf (saveProjectEntry pg form st)) = entries Project st
    \<and> editing (stateOf (saveProjectEntry pg form st)) = editing st
    \<and> modalHidden (stateOf (saveProjectEntry pg form st)) = modalHidden st
    \<and> currentStep (stateOf (saveProjectEntry pg form st)) = currentStep st"
  using assms by (simp add: saveProjectEntry_def showNotification_def entries_def)

theorem untagged_project_save_changes_nothing_witness:
  "splitTags (proj_tech_stack untaggedProject) = []
   \<and> editing projectOpenForEdit Project = 0 \<and> \<not> modalHidden projectOpenForEdit Project
   \<and> entries Project projectOpenForEdit = [projectEntry sampleProject]
   \<and> entries Project (stateOf (saveProjectEntry filledPage untaggedProject projectOpenForEdit))
       = [projectEntry sampleProject]
   \<and> editing (stateOf (saveProjectEntry filledPage untaggedProject projectOpenForEdit)) Project = 0
   \<and> \<not> modalHidden (stateOf (saveProjectEntry filledPage untaggedProject projectOpenForEdit)) Project
   \<and> notifications (stateOf (saveProjectEntry filledPage untaggedProject projectOpenForEdit))
       = [(''Please add at least one technology in Tech Stack'', ''warning'')]"
proof -
  have tags: "splitTags (proj_tech_stack untaggedProject) = []"
    by (simp add: untaggedProject_def sampleProject_def splitTags_def trim_def isSpace_def)
  have before: "editing projectOpenForEdit Project = 0" "\<not> modalHidden projectOpenForEdit Project"
    "entries Project projectOpenForEdit = [projectEntry sampleProject]"
    "notifications projectOpenForEdit = []"
    by (simp_all add: projectOpenForEdit_def entries_def getOwn_setOwn initialWizard_def)
  note unchanged = untagged_project_save_changes_nothing [OF tags, of filledPage projectOpenForEdit]
  from unchanged [THEN conjunct2] before
  have "entries Project (stateOf (saveProjectEntry filledPage untaggedProject projectOpenForEdit))
       = [projectEntry sampleProject]"
    and "editing (stateOf (saveProjectEntry filledPage untaggedProject projectOpenForEdit)) Project = 0"
    and "\<not> modalHidden (stateOf (saveProjectEntry filledPage untaggedProject projectOpenForEdit)) Project"
    by simp_all
  moreover from unchanged [THEN conjunct1] before(4)
  have "notifications (stateOf (saveProjectEntry filledPage untaggedProject projectOpenForEdit))
       = [(''Please add at least one technology in Tech Stack'', ''warning'')]"
    by simp
  ultimately show ?thesis
    using tags before by simp
qed

text \<open>
  C9: for each sub-collection, a confirmed delete of index \<open>i\<close> of a list of length n, with
  \<open>0 \<le> i < n\<close>, removes exactly element \<open>i\<close>: the list has length n - 1, every element
  before \<open>i\<close> is unchanged and every element that was at a position \<open>j > i\<close> is at \<open>j - 1\<close>.
\<close>

theorem confirmed_delete_removes_one:
  assumes "isSequence c st" and "0 \<le> i" and "i < int (length (entries c st))"
  shows "removedAt (nat i) (entries c st) (entries c (stateOf (deleteAt pg True c i st)))
    \<and> length (entries c (stateOf (deleteAt pg True c i st))) = length (entries c st) - 1
    \<and> entries c (stateOf (deleteAt pg True c i st))
        = take (nat i) (entries c st) @ drop (nat i + 1) (entries c st)"
proof -
  obtain m where "deleteAt pg True c i = deleteEntry pg True c i m"
    using deleteAt_eq by blast
  with assms(1) have e: "entries c (stateOf (deleteAt pg True c i st)) = splice1 (entries c st) i"
    by (simp add: deleteEntry_entries)
  from assms(2,3) have r: "removedAt (nat i) (entries c st) (splice1 (entries c st) i)"
    by (rule removedAt_splice1)
  from assms(2,3) have s: "splice1 (entries c st) i
      = take (nat i) (entries c st) @ drop (nat i + 1) (entries c st)"
    by (simp add: splice1_def Let_def min_def)
  from r have "length (splice1 (entries c st) i) = length (entries c st) - 1"
    by (auto simp add: removedAt_def)
  with e r s show ?thesis
    by simp
qed

theorem confirmed_delete_removes_one_witness:
  "isSequence Skill threeSkills \<and> (0::int) \<le> 1 \<and> 1 < int (length (entries Skill threeSkills))
   \<and> entries Skill (stateOf (deleteAt filledPage True Skill 1 threeSkills))
       = [JObj [(''name'', JStr ''HOL'')], JObj [(''name'', JStr ''Coq'')]]
   \<and> removedAt 1 (entries Skill threeSkills)
        (entries Skill (stateOf (deleteAt filledPage True Skill 1 threeSkills)))"
proof -
  have skills: "entries Skill threeSkills
      = [JObj [(''name'', JStr ''HOL'')], JObj [(''name'', JStr ''SML'')],
         JObj [(''name'', JStr ''Coq'')]]"
    "isSequence Skill threeSkills"
    by (simp_all add: threeSkills_def entries_def isSequence_def getOwn_setOwn)
  then have h: "isSequence Skill threeSkills" "(0::int) \<le> 1"
    "1 < int (length (entries Skill threeSkills))"
    by simp_all
  note removed = confirmed_delete_removes_one [OF h, of filledPage]
  from removed [THEN conjunct1]
  have "removedAt 1 (entries Skill threeSkills)
        (entries Skill (stateOf (deleteAt filledPage True Skill 1 threeSkills)))"
    by simp
  moreover from removed [THEN conjunct2, THEN conjunct2]
  have "entries Skill (stateOf (deleteAt filledPage True Skill 1 threeSkills))
       = [JObj [(''name'', JStr ''HOL'')], JObj [(''name'', JStr ''Coq'')]]"
    by (simp add: skills(1))
  ultimately show ?thesis
    using h by (intro conjI)
qed

text \<open>
  C10, as stated, fails: after \<^verbatim>\<open>openProjectForm\<close> the sentinel is -1, but a save of a
  project whose technology tags come out empty appends no record.
\<close>

theorem untagged_project_after_open_appends_nothing:
  "editing (openEditor Project initialWizard) Project = - 1
   \<and> \<not> length (entries Project
          (stateOf (submit filledPage digitsValue digitsValue (ProjectForm untaggedProject)
             (openEditor Project initialWizard))))
       = length (entries Project initialWizard) + 1"
proof -
  have tags: "splitTags (proj_tech_stack untaggedProject) = []"
    by (simp add: untaggedProject_def sampleProject_def splitTags_def trim_def isSpace_def)
  have seq: "isSequence Project (openForm Project initialWizard)"
    by (simp add: isSequence_def openForm_fields initialWizard_def initialProfileData_def getOwn_def)
  have "entries Project (stateOf (submit filledPage digitsValue digitsValue
      (ProjectForm untaggedProject) (openForm Project initialWizard)))
      = entries Project (openForm Project initialWizard)"
    using submit_entries [of "ProjectForm untaggedProject" "openForm Project initialWizard"] seq tags
    by simp
  then show ?thesis
    by (simp add: openEditor_eq openForm_fields entries_cong [OF openForm_fields(2)])
qed

text \<open>
  C10, amended: for every editor, opening the form for creation and closing the modal both
  reset that editor's sentinel to -1; consequently a save right after either of them never
  overwrites an existing index: an accepted save appends the new record after the
  unchanged list, and a rejected save (a project whose technology tags come out empty)
  leaves the list as it is.
\<close>

theorem open_and_close_reset_the_sentinel:
  "editing (openEditor c st) c = - 1 \<and> editing (closeEditor c st) c = - 1
   \<and> (isSequence (editorOf form) st \<longrightarrow>
        entries (editorOf form)
          (stateOf (submit pg parseInt parseFloat form (openEditor (editorOf form) st)))
        = (if accepted form then entries (editorOf form) st @ [entryOf parseInt parseFloat form]
           else entries (editorOf form) st)
      \<and> entries (editorOf form)
          (stateOf (submit pg parseInt parseFloat form (closeEditor (editorOf form) st)))
        = (if accepted form then entries (editorOf form) st @ [entryOf parseInt parseFloat form]
           else entries (editorOf form) st))"
proof (intro conjI impI)
  show "editing (openEditor c st) c = - 1" "editing (closeEditor c st) c = - 1"
    by (simp_all add: openEditor_eq closeEditor_eq openForm_fields closeModal_fields)
next
  assume seq: "isSequence (editorOf form) st"
  let ?c = "editorOf form"
  have o: "isSequence ?c (openForm ?c st)" "entries ?c (openForm ?c st) = entries ?c st"
    "editing (openForm ?c st) ?c = - 1"
    using seq
    by (simp_all add: isSequence_cong [OF openForm_fields(2)] entries_cong [OF openForm_fields(2)]
        openForm_fields)
  have c: "isSequence ?c (closeModal ?c st)" "entries ?c (closeModal ?c st) = entries ?c st"
    "editing (closeModal ?c st) ?c = - 1"
    using seq
    by (simp_all add: isSequence_cong [OF closeModal_fields(2)] entries_cong [OF closeModal_fields(2)]
        closeModal_fields)
  show "entries ?c (stateOf (submit pg parseInt parseFloat form (openEditor ?c st)))
        = (if accepted form then entries ?c st @ [entryOf parseInt parseFloat form]
           else entries ?c st)"
    using submit_entries [OF o(1)] o(2,3) by (simp add: openEditor_eq)
  show "entries ?c (stateOf (submit pg parseInt parseFloat form (closeEditor ?c st)))
        = (if accepted form then entries ?c st @ [entryOf parseInt parseFloat form]
           else entries ?c st)"
    using submit_entries [OF c(1)] c(2,3) by (simp add: closeEditor_eq)
qed

theorem open_and_close_reset_the_sentinel_witness:
  "editing (stateOf (editAt Skill 1 threeSkills)) Skill = 1
   \<and> editing (closeEditor Skill (stateOf (editAt Skill 1 threeSkills))) Skill = - 1
   \<and> isSequence Skill (stateOf (editAt Skill 1 threeSkills))
   \<and> entries Skill (stateOf (submit filledPage digitsValue digitsValue (SkillForm sampleSkill)
        (closeEditor Skill (stateOf (editAt Skill 1 threeSkills)))))
       = [JObj [(''name'', JStr ''HOL'')], JObj [(''name'', JStr ''SML'')],
          JObj [(''name'', JStr ''Coq'')],
          JObj [(''name'', JStr ''HOL''), (''proficiency'', JStr ''Advanced''),
                (''category'', JNull)]]"
proof -
  have skills: "getOwn (profileData threeSkills) ''skills''
      = JArr [JObj [(''name'', JStr ''HOL'')], JObj [(''name'', JStr ''SML'')],
              JObj [(''name'', JStr ''Coq'')]] []"
    by (simp add: threeSkills_def getOwn_setOwn)
  define st where "st = stateOf (editSkill 1 threeSkills)"
  have st: "st = threeSkills\<lparr>editing := (editing threeSkills)(Skill := 1),
      modalHidden := (modalHidden threeSkills)(Skill := False)\<rparr>"
    by (simp add: st_def editSkill_def editEntry_def skills Let_def)
  have edit: "isSequence Skill st" "editing st Skill = 1"
    "entries Skill st = [JObj [(''name'', JStr ''HOL'')], JObj [(''name'', JStr ''SML'')],
              JObj [(''name'', JStr ''Coq'')]]"
    by (simp_all add: st isSequence_def entries_def skills)
  have entry: "skillEntry sampleSkill
      = (JObj [(''name'', JStr ''HOL''), (''proficiency'', JStr ''Advanced''),
               (''category'', JNull)] :: int jsval)"
    by (simp add: skillEntry_def sampleSkill_def trimOrNull_def trim_def isSpace_def)
  from open_and_close_reset_the_sentinel
    [of Skill st "SkillForm sampleSkill" filledPage digitsValue digitsValue] edit entry
  show ?thesis
    by (simp add: st_def [symmetric])
qed

lemma validateStep_keeps_step:
  assumes "validateStep pg step st = Inr (ok, st')"
  shows "currentStep st' = currentStep st"
proof -
  from assms have "st' = st \<or> (\<exists>m. st' = showNotification m ''warning'' st)"
    by (auto simp add: validateStep_def split: option.splits sum.splits bool.splits if_splits)
  then show ?thesis
    by (auto simp add: showNotification_fields)
qed

lemma nextStep_step:
  "currentStep (stateOf (nextStep pg st)) = currentStep st
   \<or> (currentStep st < totalSteps \<and> currentStep (stateOf (nextStep pg st)) = currentStep st + 1)"
proof (cases "validateStep pg (currentStep st) st")
  case (Inl e)
  then show ?thesis by (simp add: nextStep_def)
next
  case (Inr r)
  obtain ok st' where r: "r = (ok, st')" by (cases r)
  with Inr have "currentStep st' = currentStep st"
    by (simp add: validateStep_keeps_step)
  with Inr r show ?thesis
    by (cases ok) (simp_all add: nextStep_def)
qed

lemma lengthIsZero_sequence:
  "isSequence c st \<Longrightarrow>
   lengthIsZero z (getOwn (profileData st) (collectionKey c)) = Inr (entries c st = [])"
  by (cases "getOwn (profileData st) (collectionKey c)") (simp_all add: isSequence_def entries_def)

lemma validateStep_sequences:
  assumes "stepContent pg step = Some inputs" and "isSequence Education st" and "isSequence Skill st"
  shows "\<exists>message. validateStep pg step st =
    (if list_all (\<lambda>input. trim (snd input) \<noteq> []) inputs
        \<and> (if step = 2 then entries Education st \<noteq> [] else True)
        \<and> (if step = 3 then entries Skill st \<noteq> [] else True)
     then Inr (True, st)
     else Inr (False, showNotification message ''warning'' st))"
proof (cases "find (\<lambda>input. trim (snd input) = []) inputs")
  case (Some input)
  then have "\<not> list_all (\<lambda>input. trim (snd input) \<noteq> []) inputs"
    by (auto simp add: find_Some_iff list_all_iff)
  with Some assms(1) show ?thesis
    by (auto simp add: validateStep_def)
next
  case None
  then have filled: "list_all (\<lambda>input. trim (snd input) \<noteq> []) inputs"
    by (auto simp add: find_None_iff list_all_iff)
  have edu: "lengthIsZero (isZero pg) (getOwn (profileData st) ''education'')
      = Inr (entries Education st = [])"
    using lengthIsZero_sequence [OF assms(2)] by simp
  have sk: "lengthIsZero (isZero pg) (getOwn (profileData st) ''skills'')
      = Inr (entries Skill st = [])"
    using lengthIsZero_sequence [OF assms(3)] by simp
  show ?thesis
    using None assms(1) filled
    by (auto simp add: validateStep_def edu sk)
qed

text \<open>
  C5: from a step in [1, 5] the wizard stays in [1, 5]. \<^verbatim>\<open>nextStep\<close> either leaves the step
  as it is or adds exactly 1, never beyond step 5. On a draft whose education and skills
  are sequences it leaves the step as it is, and logs a warning, unless every required
  control of the current step has a value that is not blank and, on step 2, the education
  list and, on step 3, the skills list is non-empty; if so it advances (from step 5 there
  is nowhere to advance to). \<^verbatim>\<open>prevStep\<close> subtracts exactly 1 from a step above 1 and leaves
  step 1 at 1.
\<close>

theorem wizard_step_stays_in_range:
  assumes "1 \<le> currentStep st" and "currentStep st \<le> totalSteps"
  shows "1 \<le> currentStep (stateOf (nextStep pg st))
    \<and> currentStep (stateOf (nextStep pg st)) \<le> totalSteps
    \<and> (currentStep (stateOf (nextStep pg st)) = currentStep st
        \<or> currentStep (stateOf (nextStep pg st)) = currentStep st + 1)
    \<and> currentStep (prevStep st) = (if currentStep st > 1 then currentStep st - 1 else 1)
    \<and> 1 \<le> currentStep (prevStep st) \<and> currentStep (prevStep st) \<le> totalSteps
    \<and> currentStep (showWizardView st) = 1
    \<and> (stepContent pg (currentStep st) = Some inputs \<and> isSequence Education st
        \<and> isSequence Skill st \<longrightarrow>
          (\<exists>message. nextStep pg st =
             (if list_all (\<lambda>input. trim (snd input) \<noteq> []) inputs
                 \<and> (if currentStep st = 2 then entries Education st \<noteq> [] else True)
                 \<and> (if currentStep st = 3 then entries Skill st \<noteq> [] else True)
              then Normal (if currentStep st < totalSteps
                           then st\<lparr>currentStep := currentStep st + 1\<rparr> else st)
              else Normal (showNotification message ''warning'' st))))"
proof (intro conjI impI)
  from nextStep_step [of pg st] assms
  show "1 \<le> currentStep (stateOf (nextStep pg st))"
    and "currentStep (stateOf (nextStep pg st)) \<le> totalSteps"
    and "currentStep (stateOf (nextStep pg st)) = currentStep st
        \<or> currentStep (stateOf (nextStep pg st)) = currentStep st + 1"
    by auto
  from assms show "currentStep (prevStep st) = (if currentStep st > 1 then currentStep st - 1 else 1)"
    and "1 \<le> currentStep (prevStep st)" and "currentStep (prevStep st) \<le> totalSteps"
    by (simp_all add: prevStep_def)
  show "currentStep (showWizardView st) = 1"
    by (simp add: showWizardView_def)
next
  assume "stepContent pg (currentStep st) = Some inputs \<and> isSequence Education st
        \<and> isSequence Skill st"
  then obtain message where "validateStep pg (currentStep st) st =
    (if list_all (\<lambda>input. trim (snd input) \<noteq> []) inputs
        \<and> (if currentStep st = 2 then entries Education st \<noteq> [] else True)
        \<and> (if currentStep st = 3 then entries Skill st \<noteq> [] else True)
     then Inr (True, st)
     else Inr (False, showNotification message ''warning'' st))"
    using validateStep_sequences [of pg "currentStep st" inputs st] by blast
  then show "\<exists>message. nextStep pg st =
             (if list_all (\<lambda>input. trim (snd input) \<noteq> []) inputs
                 \<and> (if currentStep st = 2 then entries Education st \<noteq> [] else True)
                 \<and> (if currentStep st = 3 then entries Skill st \<noteq> [] else True)
              then Normal (if currentStep st < totalSteps
                           then st\<lparr>currentStep := currentStep st + 1\<rparr> else st)
              else Normal (showNotification message ''warning'' st))"
    by (intro exI [of _ message]) (simp add: nextStep_def)
qed

theorem wizard_step_stays_in_range_witness:
  "1 \<le> currentStep initialWizard \<and> currentStep initialWizard \<le> totalSteps
   \<and> nextStep filledPage initialWizard = Normal (initialWizard\<lparr>currentStep := 2\<rparr>)
   \<and> isSequence Education (initialWizard\<lparr>currentStep := 2\<rparr>)
   \<and> entries Education (initialWizard\<lparr>currentStep := 2\<rparr>) = []
   \<and> currentStep (stateOf (nextStep filledPage (initialWizard\<lparr>currentStep := 2\<rparr>))) = 2
   \<and> notifications (stateOf (nextStep filledPage (initialWizard\<lparr>currentStep := 2\<rparr>)))
       = [(''Please add at least one education entry'', ''warning'')]
   \<and> currentStep (stateOf (nextStep filledPage
         (stateOf (submit filledPage digitsValue digitsValue (EducationForm sampleEducation)
            (openEditor Education (initialWizard\<lparr>currentStep := 2\<rparr>)))))) = 3
   \<and> currentStep (prevStep (initialWizard\<lparr>currentStep := 2\<rparr>)) = 1
   \<and> currentStep (prevStep initialWizard) = 1"
proof -
  let ?inputs = "[(Some ''Full Name *'', ''Asha Rao''), (Some ''Phone *'', ''5550100''),
                  (Some ''Location *'', ''Pune'')]"
  let ?st2 = "initialWizard\<lparr>currentStep := 2\<rparr>"
  have range1: "1 \<le> currentStep initialWizard" "currentStep initialWizard \<le> totalSteps"
    and range2: "1 \<le> currentStep ?st2" "currentStep ?st2 \<le> totalSteps"
    by (simp_all add: initialWizard_def totalSteps_def)
  have seq: "isSequence Education initialWizard" "isSequence Skill initialWizard"
    "isSequence Education ?st2" "isSequence Skill ?st2"
    "entries Education ?st2 = []"
    by (simp_all add: isSequence_def entries_def initialWizard_def initialProfileData_def getOwn_def)
  have page: "stepContent filledPage (currentStep initialWizard) = Some ?inputs"
    "stepContent filledPage (currentStep ?st2) = Some []"
    by (simp_all add: filledPage_def initialWizard_def)
  have filled: "list_all (\<lambda>input. trim (snd input) \<noteq> []) ?inputs"
    by (simp add: trim_def isSpace_def)
  have step1: "currentStep initialWizard = 1"
    by (simp add: initialWizard_def)
  from wizard_step_stays_in_range [OF range1, of filledPage ?inputs] page(1) seq(1,2) filled
  have first: "nextStep filledPage initialWizard = Normal ?st2"
    by (simp add: step1 totalSteps_def)
  from wizard_step_stays_in_range [OF range2, of filledPage "[]"] page(2) seq(3,4,5)
  obtain message where "nextStep filledPage ?st2 = Normal (showNotification message ''warning'' ?st2)"
    by auto
  then have second: "currentStep (stateOf (nextStep filledPage ?st2)) = 2"
    by (simp add: showNotification_fields)
  have logged: "notifications (stateOf (nextStep filledPage ?st2))
       = [(''Please add at least one education entry'', ''warning'')]"
    by (simp add: nextStep_def validateStep_def filledPage_def showNotification_def
        initialWizard_def initialProfileData_def getOwn_def)
  from wizard_step_stays_in_range [OF range1, of filledPage ?inputs]
    wizard_step_stays_in_range [OF range2, of filledPage "[]"]
  have previous: "currentStep (prevStep ?st2) = 1" "currentStep (prevStep initialWizard) = 1"
    by (simp_all add: step1)
  define st3 where "st3 = stateOf (submit filledPage digitsValue digitsValue
      (EducationForm sampleEducation) (openForm Education ?st2))"
  have opened: "isSequence Education (openForm Education ?st2)"
    "isSequence Skill (openForm Education ?st2)"
    "entries Education (openForm Education ?st2) = []"
    "editing (openForm Education ?st2) Education = - 1"
    "currentStep (openForm Education ?st2) = 2"
    using seq(3,4,5)
    by (simp_all add: isSequence_cong [OF openForm_fields(2)] entries_cong [OF openForm_fields(2)]
        openForm_fields)
  have added: "currentStep st3 = 2" "isSequence Education st3" "isSequence Skill st3"
    "entries Education st3 \<noteq> []"
    using submit_entries [of "EducationForm sampleEducation" "openForm Education ?st2"
        filledPage digitsValue digitsValue]
      submit_isSequence [of "EducationForm sampleEducation" "openForm Education ?st2" Education
        filledPage digitsValue digitsValue]
      submit_isSequence [of "EducationForm sampleEducation" "openForm Education ?st2" Skill
        filledPage digitsValue digitsValue]
      submit_currentStep [of filledPage digitsValue digitsValue "EducationForm sampleEducation"
        "openForm Education ?st2"]
      opened
    by (simp_all add: st3_def)
  then have range3: "1 \<le> currentStep st3" "currentStep st3 \<le> totalSteps"
    and page3: "stepContent filledPage (currentStep st3) = Some []"
    by (simp_all add: totalSteps_def filledPage_def)
  from wizard_step_stays_in_range [OF range3, of filledPage "[]"] page3 added
  have "nextStep filledPage st3 = Normal (st3\<lparr>currentStep := 3\<rparr>)"
    by (simp add: totalSteps_def)
  then have third: "currentStep (stateOf (nextStep filledPage
         (stateOf (submit filledPage digitsValue digitsValue (EducationForm sampleEducation)
            (openEditor Education ?st2))))) = 3"
    by (simp add: st3_def openEditor_eq)
  from range1 first seq(3,5) second logged third previous show ?thesis
    by (intro conjI)
qed

end
